theory Spec2Isabelle
  imports Complex_Main
begin

section \<open>Python values\<close>

text \<open>
  The backend (\<^verbatim>\<open>backend/app.py\<close>) is a Flask application over a Mongita document
  store. Request bodies are parsed JSON and stored documents are Python dicts, so both are
  modelled by one datatype of dynamically typed values. A dict is an association list in
  insertion order; \<^verbatim>\<open>None\<close> is \<open>VNone\<close>.

  A Python \<^verbatim>\<open>float\<close> is an IEEE-754 binary64 number. A finite one is modelled by the
  rational it denotes (the two zeros are identified: they are equal under \<^verbatim>\<open>==\<close>), and
  every arithmetic operation rounds the exact result to the nearest binary64 value, ties to
  even, as the hardware does.
\<close>

datatype pyfloat = Fin rat | PInf | NInf | NaN

text \<open>
  An \<^verbatim>\<open>ObjectId\<close> is modelled by its 24-digit hexadecimal text and a naive
  \<^verbatim>\<open>datetime\<close> by its ISO-8601 text, which is what \<^verbatim>\<open>str\<close> and
  \<^verbatim>\<open>isoformat\<close> return for them.
\<close>

type_synonym oid = string
type_synonym datetime = string

datatype pyval =
    VNone
  | VBool bool
  | VInt int
  | VFloat pyfloat
  | VStr string
  | VList "pyval list"
  | VDict "(string \<times> pyval) list"
  | VOid oid
  | VTime datetime

type_synonym pydict = "(string \<times> pyval) list"

datatype pyerr = ValueError | TypeError | OverflowError | AttributeError

subsection \<open>Binary64 rounding\<close>

definition pow2 :: "int \<Rightarrow> rat" where
  "pow2 e = (if 0 \<le> e then 2 ^ nat e else 1 / 2 ^ nat (- e))"

fun bits :: "nat \<Rightarrow> nat" where
  "bits n = (if n = 0 then 0 else Suc (bits (n div 2)))"

declare bits.simps [simp del]

text \<open>\<open>ilog2 r\<close> is \<open>\<lfloor>log\<^sub>2 r\<rfloor>\<close> for a positive rational \<open>r\<close>.\<close>

definition ilog2 :: "rat \<Rightarrow> int" where
  "ilog2 r = (if 1 \<le> r then int (bits (nat \<lfloor>r\<rfloor>)) - 1
              else - int (bits (nat (\<lceil>1 / r\<rceil> - 1))))"

text \<open>Rounding to the nearest integer, a tie going to the even neighbour.\<close>

definition rhe :: "rat \<Rightarrow> int" where
  "rhe r = (let f = \<lfloor>r\<rfloor>; d = r - of_int f
            in if d < 1 / 2 then f else if 1 / 2 < d then f + 1
               else if even f then f else f + 1)"

text \<open>
  \<open>round64 r\<close> is the binary64 value nearest to \<open>r\<close>: 53 significant bits, the exponent
  of the last bit no smaller than \<open>-1074\<close> (subnormal numbers), infinity from \<open>2\<^sup>1\<^sup>0\<^sup>2\<^sup>4\<close> on.
\<close>

definition round64 :: "rat \<Rightarrow> pyfloat" where
  "round64 r =
     (if r = 0 then Fin 0
      else let a = \<bar>r\<bar>;
               e = max (ilog2 a - 52) (- 1074);
               v = of_int (rhe (a / pow2 e)) * pow2 e
           in if pow2 1024 \<le> v then (if 0 < r then PInf else NInf)
              else Fin (if 0 < r then v else - v))"

subsection \<open>Float arithmetic\<close>

fun fneg :: "pyfloat \<Rightarrow> pyfloat" where
  "fneg (Fin a) = Fin (- a)"
| "fneg PInf = NInf"
| "fneg NInf = PInf"
| "fneg NaN = NaN"

fun fadd :: "pyfloat \<Rightarrow> pyfloat \<Rightarrow> pyfloat" where
  "fadd (Fin a) (Fin b) = round64 (a + b)"
| "fadd NaN y = NaN"
| "fadd x NaN = NaN"
| "fadd PInf NInf = NaN"
| "fadd NInf PInf = NaN"
| "fadd PInf y = PInf"
| "fadd NInf y = NInf"
| "fadd x PInf = PInf"
| "fadd x NInf = NInf"

definition fsub :: "pyfloat \<Rightarrow> pyfloat \<Rightarrow> pyfloat" where
  "fsub x y = fadd x (fneg y)"

text \<open>The sign of a float as \<open>-1\<close>, \<open>0\<close> or \<open>1\<close>; used for products with an infinity.\<close>

fun fsign :: "pyfloat \<Rightarrow> int" where
  "fsign (Fin a) = (if a = 0 then 0 else if 0 < a then 1 else - 1)"
| "fsign PInf = 1"
| "fsign NInf = - 1"
| "fsign NaN = 0"

fun fmul :: "pyfloat \<Rightarrow> pyfloat \<Rightarrow> pyfloat" where
  "fmul (Fin a) (Fin b) = round64 (a * b)"
| "fmul NaN y = NaN"
| "fmul x NaN = NaN"
| "fmul x y = (let s = fsign x * fsign y
               in if s = 0 then NaN else if 0 < s then PInf else NInf)"

text \<open>Division by a finite non-zero constant (the source only divides by \<^verbatim>\<open>100.0\<close>).\<close>

definition fdiv_const :: "pyfloat \<Rightarrow> rat \<Rightarrow> pyfloat" where
  "fdiv_const x c =
     (case x of Fin a \<Rightarrow> round64 (a / c)
      | PInf \<Rightarrow> (if 0 < c then PInf else NInf)
      | NInf \<Rightarrow> (if 0 < c then NInf else PInf)
      | NaN \<Rightarrow> NaN)"

text \<open>\<^verbatim>\<open>x < y\<close> on floats: false whenever an operand is NaN.\<close>

fun flt :: "pyfloat \<Rightarrow> pyfloat \<Rightarrow> bool" where
  "flt NaN y = False"
| "flt x NaN = False"
| "flt (Fin a) (Fin b) = (a < b)"
| "flt x NInf = False"
| "flt PInf y = False"
| "flt NInf y = True"
| "flt x PInf = True"

text \<open>
  \<^verbatim>\<open>max(0.0, x)\<close>: Python's \<^verbatim>\<open>max\<close> keeps its first argument unless a later one is
  strictly greater.
\<close>

definition max0 :: "pyfloat \<Rightarrow> pyfloat" where
  "max0 x = (if flt (Fin 0) x then x else Fin 0)"

text \<open>
  \<^verbatim>\<open>round(x, 2)\<close>: the exact value of \<open>x\<close> is rounded to two decimals, ties to even, and
  the decimal result is converted back to the nearest binary64 value; an infinity or a NaN
  is returned as it is.
\<close>

definition round2 :: "pyfloat \<Rightarrow> pyfloat" where
  "round2 x = (case x of Fin a \<Rightarrow> round64 (of_int (rhe (a * 100)) / 100) | v \<Rightarrow> v)"

text \<open>\<^verbatim>\<open>float(n)\<close> for an int: OverflowError when \<open>n\<close> is outside the binary64 range.\<close>

definition float_of_int :: "int \<Rightarrow> pyerr + pyfloat" where
  "float_of_int n = (case round64 (of_int n) of Fin v \<Rightarrow> Inr (Fin v) | _ \<Rightarrow> Inl OverflowError)"

text \<open>\<^verbatim>\<open>int(x)\<close> for a float: truncation towards zero.\<close>

definition int_of_float :: "pyfloat \<Rightarrow> pyerr + int" where
  "int_of_float x =
     (case x of Fin a \<Rightarrow> Inr (if 0 \<le> a then \<lfloor>a\<rfloor> else \<lceil>a\<rceil>)
      | NaN \<Rightarrow> Inl ValueError
      | _ \<Rightarrow> Inl OverflowError)"

subsection \<open>Library functions taken as parameters\<close>

text \<open>
  What the Python and BSON libraries do with a string is not part of the repository; it is a
  parameter of the model, so every theorem below holds whatever these functions return.
  \<open>None\<close> stands for the exception the library raises.
\<close>

record pyenv =
  int_of_str :: "string \<Rightarrow> int option"
  float_of_str :: "string \<Rightarrow> pyfloat option"
  oid_of_str :: "string \<Rightarrow> oid option"
  parse_iso :: "string \<Rightarrow> datetime option"

subsection \<open>Truthiness, \<^verbatim>\<open>or\<close>, \<^verbatim>\<open>int()\<close>, \<^verbatim>\<open>float()\<close>\<close>

fun truthy :: "pyval \<Rightarrow> bool" where
  "truthy VNone = False"
| "truthy (VBool b) = b"
| "truthy (VInt n) = (n \<noteq> 0)"
| "truthy (VFloat x) = (x \<noteq> Fin 0)"
| "truthy (VStr s) = (s \<noteq> [])"
| "truthy (VList xs) = (xs \<noteq> [])"
| "truthy (VDict d) = (d \<noteq> [])"
| "truthy (VOid i) = True"
| "truthy (VTime t) = True"

definition py_or :: "pyval \<Rightarrow> pyval \<Rightarrow> pyval" where
  "py_or a b = (if truthy a then a else b)"

fun py_int :: "pyenv \<Rightarrow> pyval \<Rightarrow> pyerr + int" where
  "py_int env (VInt n) = Inr n"
| "py_int env (VBool b) = Inr (if b then 1 else 0)"
| "py_int env (VFloat x) = int_of_float x"
| "py_int env (VStr s) = (case int_of_str env s of None \<Rightarrow> Inl ValueError | Some n \<Rightarrow> Inr n)"
| "py_int env v = Inl TypeError"

fun py_float :: "pyenv \<Rightarrow> pyval \<Rightarrow> pyerr + pyfloat" where
  "py_float env (VFloat x) = Inr x"
| "py_float env (VInt n) = float_of_int n"
| "py_float env (VBool b) = Inr (Fin (if b then 1 else 0))"
| "py_float env (VStr s) = (case float_of_str env s of None \<Rightarrow> Inl ValueError | Some x \<Rightarrow> Inr x)"
| "py_float env v = Inl TypeError"

text \<open>\<^verbatim>\<open>ObjectId(v)\<close> for a truthy \<open>v\<close>; \<open>None\<close> when it raises.\<close>

fun ObjectId :: "pyenv \<Rightarrow> pyval \<Rightarrow> oid option" where
  "ObjectId env (VStr s) = oid_of_str env s"
| "ObjectId env (VOid i) = Some i"
| "ObjectId env v = None"

subsection \<open>Dicts\<close>

text \<open>\<^verbatim>\<open>d.get(k)\<close>, \<^verbatim>\<open>k in d\<close>, \<^verbatim>\<open>d[k] = v\<close> and \<^verbatim>\<open>del d[k]\<close> on a dict.\<close>

definition dict_get :: "pydict \<Rightarrow> string \<Rightarrow> pyval" where
  "dict_get d k = (case map_of d k of None \<Rightarrow> VNone | Some v \<Rightarrow> v)"

definition has_key :: "pydict \<Rightarrow> string \<Rightarrow> bool" where
  "has_key d k = (map_of d k \<noteq> None)"

fun dict_set :: "pydict \<Rightarrow> string \<Rightarrow> pyval \<Rightarrow> pydict" where
  "dict_set [] k v = [(k, v)]"
| "dict_set ((k', v') # d) k v =
     (if k' = k then (k, v) # d else (k', v') # dict_set d k v)"

definition dict_del :: "pydict \<Rightarrow> string \<Rightarrow> pydict" where
  "dict_del d k = filter (\<lambda>kv. fst kv \<noteq> k) d"

text \<open>\<^verbatim>\<open>data.get(k)\<close> on an arbitrary value: only a dict has the method.\<close>

fun py_get :: "pyval \<Rightarrow> string \<Rightarrow> pyerr + pyval" where
  "py_get (VDict d) k = Inr (dict_get d k)"
| "py_get v k = Inl AttributeError"

text \<open>\<^verbatim>\<open>k in data\<close>: membership in a dict's keys, in a list's elements, in a string's
  substrings; any other value is not iterable.\<close>

fun is_sublist :: "string \<Rightarrow> string \<Rightarrow> bool" where
  "is_sublist k [] = (k = [])"
| "is_sublist k (c # s) = (take (length k) (c # s) = k \<or> is_sublist k s)"

fun py_in :: "string \<Rightarrow> pyval \<Rightarrow> pyerr + bool" where
  "py_in k (VDict d) = Inr (has_key d k)"
| "py_in k (VList xs) = Inr (VStr k \<in> set xs)"
| "py_in k (VStr s) = Inr (is_sublist k s)"
| "py_in k v = Inl TypeError"

section \<open>The document store\<close>

text \<open>
  A Mongita collection is the list of its documents in insertion order; each document
  carries its \<^verbatim>\<open>_id\<close>. The state is the store as the running process sees it.

  The store writes a document as BSON, whose integers have at most 8 bytes: encoding a
  document that holds an int outside \<open>-2\<^sup>6\<^sup>3 \<le> n < 2\<^sup>6\<^sup>3\<close> raises OverflowError.
\<close>

primrec bson_ok :: "pyval \<Rightarrow> bool" where
  "bson_ok VNone = True"
| "bson_ok (VBool b) = True"
| "bson_ok (VInt n) = (- (2 ^ 63) \<le> n \<and> n < 2 ^ 63)"
| "bson_ok (VFloat x) = True"
| "bson_ok (VStr s) = True"
| "bson_ok (VList xs) = list_all (\<lambda>b. b) (map bson_ok xs)"
| "bson_ok (VDict d) = list_all snd (map (map_prod id bson_ok) d)"
| "bson_ok (VOid i) = True"
| "bson_ok (VTime t) = True"

definition doc_ok :: "pydict \<Rightarrow> bool" where
  "doc_ok d = bson_ok (VDict d)"

record db =
  items_col :: "pydict list"
  invoices_col :: "pydict list"
  receipts_col :: "pydict list"

definition has_id :: "oid \<Rightarrow> pydict \<Rightarrow> bool" where
  "has_id i d = (dict_get d ''_id'' = VOid i)"

text \<open>\<^verbatim>\<open>col.find_one({"_id": oid})\<close>\<close>

definition find_one :: "pydict list \<Rightarrow> oid \<Rightarrow> pydict option" where
  "find_one col i = find (has_id i) col"

text \<open>Applying the assignments of a \<^verbatim>\<open>$set\<close> to one document.\<close>

fun set_fields :: "pydict \<Rightarrow> pydict \<Rightarrow> pydict" where
  "set_fields d [] = d"
| "set_fields d ((k, v) # fs) = set_fields (dict_set d k v) fs"

text \<open>
  \<^verbatim>\<open>col.update_one({"_id": oid}, {"$set": fields})\<close>: the first matching document is
  updated; the result carries \<^verbatim>\<open>matched_count\<close>. The assignments are made to the
  document the process holds and the document is then written: when the write raises, the
  call raises, nothing reaches the disk, and the process keeps seeing the changed document.
\<close>

fun update_one :: "pydict list \<Rightarrow> oid \<Rightarrow> pydict \<Rightarrow> (pyerr + nat) \<times> pydict list" where
  "update_one [] i fs = (Inr 0, [])"
| "update_one (d # ds) i fs =
     (if has_id i d
      then ((if doc_ok (set_fields d fs) then Inr 1 else Inl OverflowError),
            set_fields d fs # ds)
      else (fst (update_one ds i fs), d # snd (update_one ds i fs)))"

text \<open>
  \<^verbatim>\<open>col.insert_one(doc)\<close>, the store assigning the fresh id \<open>new_id\<close>. A document
  that cannot be written is not stored at all.
\<close>

definition insert_one :: "pydict list \<Rightarrow> pydict \<Rightarrow> oid \<Rightarrow> pyerr + pydict list" where
  "insert_one col doc new_id =
     (if doc_ok doc then Inr (col @ [dict_set doc ''_id'' (VOid new_id)])
      else Inl OverflowError)"

subsection \<open>JSON conversion of a document\<close>

primrec to_jsonable :: "pyval \<Rightarrow> pyval" where
  "to_jsonable VNone = VNone"
| "to_jsonable (VBool b) = VBool b"
| "to_jsonable (VInt n) = VInt n"
| "to_jsonable (VFloat x) = VFloat x"
| "to_jsonable (VStr s) = VStr s"
| "to_jsonable (VList xs) = VList (map (to_jsonable) xs)"
| "to_jsonable (VDict d) = VDict (map (map_prod id (to_jsonable)) d)"
| "to_jsonable (VOid i) = VStr i"
| "to_jsonable (VTime t) = VStr t"

definition doc_to_dict :: "pydict option \<Rightarrow> pyval" where
  "doc_to_dict doc =
     (case doc of None \<Rightarrow> VNone
      | Some d \<Rightarrow>
          if d = [] then VNone
          else let raw = map (map_prod id (to_jsonable)) d
               in if has_key raw ''_id''
                  then VDict (dict_del (dict_set raw ''id'' (dict_get raw ''_id'')) ''_id'')
                  else VDict raw)"

section \<open>Responses\<close>

text \<open>
  A handler answers with a status and a JSON body, or an exception escapes from it (Flask
  then answers 500). Status 400 is the specification's InvalidArgument and 404 its NotFound.
\<close>

datatype response =
    Ok pyval
  | Created pyval
  | InvalidArgument string
  | NotFound string
  | Unhandled pyerr

section \<open>Stock ledger\<close>

text \<open>
  \<^verbatim>\<open>adjust_stock(item_id)\<close>, the handler of
  \<^verbatim>\<open>POST /api/items/<id>/adjust_stock\<close>. \<open>body\<close> is what
  \<^verbatim>\<open>request.get_json(force=True)\<close> returned, \<open>now\<close> the clock's
  \<^verbatim>\<open>datetime.utcnow()\<close> and \<open>new_id\<close> the id the store gives to an inserted
  document. The first \<^verbatim>\<open>data.get\<close> is inside the \<^verbatim>\<open>try\<close>, so a body that
  is not a dict is answered like a bad delta.
\<close>

definition adjust_stock ::
  "pyenv \<Rightarrow> db \<Rightarrow> string \<Rightarrow> pyval \<Rightarrow> datetime \<Rightarrow> oid \<Rightarrow> response \<times> db" where
  "adjust_stock env s item_id body now new_id =
     (case oid_of_str env item_id of
        None \<Rightarrow> (InvalidArgument ''Invalid item id'', s)
      | Some i \<Rightarrow>
          (case py_or body (VDict []) of
             VDict data \<Rightarrow>
               (case py_int env (py_or (dict_get data ''delta'') (VInt 0)) of
                  Inl e \<Rightarrow> (InvalidArgument ''Bad delta value'', s)
                | Inr delta \<Rightarrow>
                    let changed_by = py_or (dict_get data ''changedBy'') VNone in
                    (case find_one (items_col s) i of
                       None \<Rightarrow> (NotFound ''Item not found'', s)
                     | Some doc \<Rightarrow>
                         (case py_int env (py_or (dict_get doc ''quantity'') (VInt 0)) of
                            Inl e \<Rightarrow> (Unhandled e, s)
                          | Inr q \<Rightarrow>
                              let new_qty = max 0 (q + delta);
                                  res = update_one (items_col s) i
                                          [(''quantity'', VInt new_qty)];
                                  s1 = s\<lparr>items_col := snd res\<rparr>
                              in (case fst res of
                                    Inl e \<Rightarrow> (Unhandled e, s1)
                                  | Inr matched \<Rightarrow>
                                      if 0 < delta
                                      then (case insert_one (receipts_col s1)
                                                   [(''itemId'', VOid i),
                                                    (''sku'',
                                                     py_or (dict_get doc ''sku'') (VStr [])),
                                                    (''name'',
                                                     py_or (dict_get doc ''name'') (VStr [])),
                                                    (''quantity'', VInt delta),
                                                    (''receivedAt'', VTime now),
                                                    (''createdAt'', VTime now),
                                                    (''receivedBy'', changed_by)]
                                                   new_id of
                                              Inl e \<Rightarrow> (Unhandled e, s1)
                                            | Inr rc \<Rightarrow>
                                                (Ok (doc_to_dict (find_one (items_col s1) i)),
                                                 s1\<lparr>receipts_col := rc\<rparr>))
                                      else (Ok (doc_to_dict (find_one (items_col s1) i)),
                                            s1)))))
           | _ \<Rightarrow> (InvalidArgument ''Bad delta value'', s)))"

text \<open>
  The \<^verbatim>\<open>POST\<close> branch of \<^verbatim>\<open>receipts()\<close>, the handler of
  \<^verbatim>\<open>/api/receipts\<close>: the receiving workflow's entry to the ledger. Here the first
  \<^verbatim>\<open>data.get\<close> is outside any \<^verbatim>\<open>try\<close>.
\<close>

definition receive_stock ::
  "pyenv \<Rightarrow> db \<Rightarrow> pyval \<Rightarrow> datetime \<Rightarrow> oid \<Rightarrow> response \<times> db" where
  "receive_stock env s body now new_id =
     (case py_or body (VDict []) of
        VDict data \<Rightarrow>
          let item_id_str = dict_get data ''itemId'' in
          if \<not> truthy item_id_str then (InvalidArgument ''itemId is required'', s)
          else
            (case ObjectId env item_id_str of
               None \<Rightarrow> (InvalidArgument ''Invalid itemId'', s)
             | Some i \<Rightarrow>
                 (case py_int env (py_or (dict_get data ''quantity'') (VInt 0)) of
                    Inl e \<Rightarrow> (InvalidArgument ''Bad quantity value'', s)
                  | Inr qty \<Rightarrow>
                      if qty \<le> 0 then (InvalidArgument ''quantity must be > 0'', s)
                      else
                        (case find_one (items_col s) i of
                           None \<Rightarrow> (NotFound ''Item not found'', s)
                         | Some doc \<Rightarrow>
                             (case py_int env (py_or (dict_get doc ''quantity'') (VInt 0)) of
                                Inl e \<Rightarrow> (Unhandled e, s)
                              | Inr old_qty \<Rightarrow>
                                  let new_qty = max 0 (old_qty + qty);
                                      res = update_one (items_col s) i
                                              [(''quantity'', VInt new_qty)];
                                      s1 = s\<lparr>items_col := snd res\<rparr>;
                                      receipt_doc =
                                        [(''itemId'', VOid i),
                                         (''sku'', py_or (dict_get doc ''sku'') (VStr [])),
                                         (''name'', py_or (dict_get doc ''name'') (VStr [])),
                                         (''quantity'', VInt qty),
                                         (''previousQuantity'', VInt old_qty),
                                         (''newQuantity'', VInt new_qty),
                                         (''receivedAt'', VTime now),
                                         (''createdAt'', VTime now),
                                         (''receivedBy'',
                                          py_or (dict_get data ''receivedBy'') VNone)]
                                  in (case fst res of
                                        Inl e \<Rightarrow> (Unhandled e, s1)
                                      | Inr matched \<Rightarrow>
                                          (case insert_one (receipts_col s1) receipt_doc
                                                  new_id of
                                             Inl e \<Rightarrow> (Unhandled e, s1)
                                           | Inr rc \<Rightarrow>
                                               (Created
                                                  (VDict
                                                     [(''updatedItem'',
                                                       doc_to_dict
                                                         (find_one (items_col s1) i)),
                                                      (''receipt'',
                                                       doc_to_dict
                                                         (Some (dict_set receipt_doc ''_id''
                                                                  (VOid new_id))))]),
                                                s1\<lparr>receipts_col := rc\<rparr>)))))))
      | _ \<Rightarrow> (Unhandled AttributeError, s))"

section \<open>Item update\<close>

definition item_fields :: "string list" where
  "item_fields =
     [''name'', ''category'', ''type'', ''quantity'', ''minStockLevel'', ''price'',
      ''sku'', ''description'', ''location'', ''supplier'', ''expirationDate'']"

text \<open>\<^verbatim>\<open>data[field]\<close> once \<^verbatim>\<open>field in data\<close> holds: a list or a string cannot be
  indexed by a string.\<close>

fun py_index :: "pyval \<Rightarrow> string \<Rightarrow> pyerr + pyval" where
  "py_index (VDict d) k = Inr (dict_get d k)"
| "py_index v k = Inl TypeError"

text \<open>The two conversions in the loop body of \<^verbatim>\<open>update_item\<close>; neither is inside a
  \<^verbatim>\<open>try\<close>.\<close>

definition coerce_field :: "pyenv \<Rightarrow> string \<Rightarrow> pyval \<Rightarrow> pyerr + pyval" where
  "coerce_field env field v =
     (if field = ''quantity'' \<or> field = ''minStockLevel''
      then (case py_int env v of Inl e \<Rightarrow> Inl e | Inr n \<Rightarrow> Inr (VInt n))
      else if field = ''price''
      then (case py_float env v of Inl e \<Rightarrow> Inl e | Inr x \<Rightarrow> Inr (VFloat x))
      else Inr v)"

text \<open>The loop over the field names, building \<^verbatim>\<open>update_fields\<close>.\<close>

fun collect_fields :: "pyenv \<Rightarrow> pyval \<Rightarrow> string list \<Rightarrow> pydict \<Rightarrow> pyerr + pydict" where
  "collect_fields env data [] acc = Inr acc"
| "collect_fields env data (f # fs) acc =
     (case py_in f data of
        Inl e \<Rightarrow> Inl e
      | Inr False \<Rightarrow> collect_fields env data fs acc
      | Inr True \<Rightarrow>
          (case py_index data f of
             Inl e \<Rightarrow> Inl e
           | Inr v \<Rightarrow>
               (case coerce_field env f v of
                  Inl e \<Rightarrow> Inl e
                | Inr v' \<Rightarrow> collect_fields env data fs (dict_set acc f v'))))"

text \<open>\<^verbatim>\<open>update_item(item_id)\<close>, the handler of \<^verbatim>\<open>PUT /api/items/<id>\<close>.\<close>

definition update_item :: "pyenv \<Rightarrow> db \<Rightarrow> string \<Rightarrow> pyval \<Rightarrow> response \<times> db" where
  "update_item env s item_id body =
     (case oid_of_str env item_id of
        None \<Rightarrow> (InvalidArgument ''Invalid item id'', s)
      | Some i \<Rightarrow>
          (case collect_fields env (py_or body (VDict [])) item_fields [] of
             Inl e \<Rightarrow> (Unhandled e, s)
           | Inr update_fields \<Rightarrow>
               if update_fields = [] then (InvalidArgument ''Nothing to update'', s)
               else
                 let result = update_one (items_col s) i update_fields;
                     s1 = s\<lparr>items_col := snd result\<rparr>
                 in (case fst result of
                       Inl e \<Rightarrow> (Unhandled e, s1)
                     | Inr matched_count \<Rightarrow>
                         if matched_count = 0 then (NotFound ''Item not found'', s)
                         else (Ok (doc_to_dict (find_one (items_col s1) i)), s1))))"

section \<open>Invoice totals\<close>

text \<open>\<^verbatim>\<open>for l in v\<close>: a list gives its elements, a dict its keys, a string its
  characters; nothing else can be iterated.\<close>

fun py_iter :: "pyval \<Rightarrow> pyerr + pyval list" where
  "py_iter (VList xs) = Inr xs"
| "py_iter (VDict d) = Inr (map (\<lambda>kv. VStr (fst kv)) d)"
| "py_iter (VStr s) = Inr (map (\<lambda>c. VStr [c]) s)"
| "py_iter v = Inl TypeError"

text \<open>One round of the loop of \<^verbatim>\<open>compute_invoice_totals\<close>:
  \<^verbatim>\<open>float(l.get("price") or 0) * int(l.get("quantity") or 0)\<close>. The product of a float
  and an int converts the int to a float first.\<close>

definition line_amount :: "pyenv \<Rightarrow> pyval \<Rightarrow> pyerr + pyfloat" where
  "line_amount env l =
     (case l of
        VDict d \<Rightarrow>
          (case py_float env (py_or (dict_get d ''price'') (VInt 0)) of
             Inl e \<Rightarrow> Inl e
           | Inr price \<Rightarrow>
               (case py_int env (py_or (dict_get d ''quantity'') (VInt 0)) of
                  Inl e \<Rightarrow> Inl e
                | Inr qty \<Rightarrow>
                    (case float_of_int qty of
                       Inl e \<Rightarrow> Inl e
                     | Inr fq \<Rightarrow> Inr (fmul price fq))))
      | _ \<Rightarrow> Inl AttributeError)"

fun sum_lines :: "pyenv \<Rightarrow> pyval list \<Rightarrow> pyfloat \<Rightarrow> pyerr + pyfloat" where
  "sum_lines env [] subtotal = Inr subtotal"
| "sum_lines env (l # ls) subtotal =
     (case line_amount env l of
        Inl e \<Rightarrow> Inl e
      | Inr a \<Rightarrow> sum_lines env ls (fadd subtotal a))"

definition compute_invoice_totals :: "pyenv \<Rightarrow> pydict \<Rightarrow> pyerr + pydict" where
  "compute_invoice_totals env inv_doc =
     (case py_iter (py_or (dict_get inv_doc ''lines'') (VList [])) of
        Inl e \<Rightarrow> Inl e
      | Inr lines \<Rightarrow>
          (case sum_lines env lines (Fin 0) of
             Inl e \<Rightarrow> Inl e
           | Inr subtotal \<Rightarrow>
               (case py_float env (py_or (dict_get inv_doc ''taxRate'') (VInt 0)) of
                  Inl e \<Rightarrow> Inl e
                | Inr tax_rate \<Rightarrow>
                    (case py_float env (py_or (dict_get inv_doc ''discountRate'') (VInt 0)) of
                       Inl e \<Rightarrow> Inl e
                     | Inr discount_rate \<Rightarrow>
                         let discount_amount = fdiv_const (fmul subtotal discount_rate) 100;
                             after_dis = max0 (fsub subtotal discount_amount);
                             tax_amount = fdiv_const (fmul after_dis tax_rate) 100;
                             total = fadd after_dis tax_amount
                         in Inr [(''subtotal'', VFloat (round2 subtotal)),
                                 (''discountRate'', VFloat discount_rate),
                                 (''discountAmount'', VFloat (round2 discount_amount)),
                                 (''taxRate'', VFloat tax_rate),
                                 (''taxAmount'', VFloat (round2 tax_amount)),
                                 (''total'', VFloat (round2 total))]))))"

section \<open>Invoices\<close>

text \<open>The normalisation of one line, shared by \<^verbatim>\<open>create_invoice\<close> and
  \<^verbatim>\<open>update_invoice\<close>: a bad item id becomes \<^verbatim>\<open>None\<close>, while the two numeric
  conversions are not guarded.\<close>

definition norm_line :: "pyenv \<Rightarrow> pyval \<Rightarrow> pyerr + pydict" where
  "norm_line env l =
     (case l of
        VDict d \<Rightarrow>
          let item_id_str = dict_get d ''itemId'';
              item_oid = (if truthy item_id_str
                          then (case ObjectId env item_id_str of
                                  None \<Rightarrow> VNone
                                | Some i \<Rightarrow> VOid i)
                          else VNone)
          in (case py_float env (py_or (dict_get d ''price'') (VInt 0)) of
                Inl e \<Rightarrow> Inl e
              | Inr price \<Rightarrow>
                  (case py_int env (py_or (dict_get d ''quantity'') (VInt 0)) of
                     Inl e \<Rightarrow> Inl e
                   | Inr qty \<Rightarrow>
                       Inr [(''itemId'', item_oid),
                            (''name'', py_or (dict_get d ''name'') (VStr [])),
                            (''sku'', py_or (dict_get d ''sku'') (VStr [])),
                            (''price'', VFloat price),
                            (''quantity'', VInt qty)]))
      | _ \<Rightarrow> Inl AttributeError)"

fun norm_lines :: "pyenv \<Rightarrow> pyval list \<Rightarrow> pyerr + pydict list" where
  "norm_lines env [] = Inr []"
| "norm_lines env (l # ls) =
     (case norm_line env l of
        Inl e \<Rightarrow> Inl e
      | Inr n \<Rightarrow>
          (case norm_lines env ls of
             Inl e \<Rightarrow> Inl e
           | Inr ns \<Rightarrow> Inr (n # ns)))"

text \<open>
  The stock loop of \<^verbatim>\<open>create_invoice\<close>. Each update is written to the store at once,
  so when a conversion or a write raises, the decrements made so far stay: the result is
  the error, if any, and the items as they then are.
\<close>

fun apply_stock_change ::
  "pyenv \<Rightarrow> pydict list \<Rightarrow> pydict list \<Rightarrow> pyerr option \<times> pydict list" where
  "apply_stock_change env items [] = (None, items)"
| "apply_stock_change env items (line # ls) =
     (case dict_get line ''itemId'' of
        VOid i \<Rightarrow>
          (case find_one items i of
             None \<Rightarrow> apply_stock_change env items ls
           | Some doc \<Rightarrow>
               (case py_int env (py_or (dict_get doc ''quantity'') (VInt 0)) of
                  Inl e \<Rightarrow> (Some e, items)
                | Inr q \<Rightarrow>
                    (case py_int env (py_or (dict_get line ''quantity'') (VInt 0)) of
                       Inl e \<Rightarrow> (Some e, items)
                     | Inr lq \<Rightarrow>
                         (case update_one items i [(''quantity'', VInt (max 0 (q - lq)))] of
                            (Inl e, items') \<Rightarrow> (Some e, items')
                          | (Inr matched, items') \<Rightarrow> apply_stock_change env items' ls))))
      | _ \<Rightarrow> apply_stock_change env items ls)"

text \<open>\<^verbatim>\<open>printedAt\<close>: the caller's text when it parses, the clock otherwise.\<close>

definition printed_at_of :: "pyenv \<Rightarrow> pyval \<Rightarrow> datetime \<Rightarrow> datetime" where
  "printed_at_of env printed_at_str now =
     (if truthy printed_at_str
      then (case printed_at_str of
              VStr t \<Rightarrow> (case parse_iso env t of None \<Rightarrow> now | Some dt \<Rightarrow> dt)
            | _ \<Rightarrow> now)
      else now)"

text \<open>\<^verbatim>\<open>inv_dict["totals"] = compute_invoice_totals(doc)\<close> and the answer with
  status \<open>ok\<close>.\<close>

definition with_totals ::
  "pyenv \<Rightarrow> (pyval \<Rightarrow> response) \<Rightarrow> pydict \<Rightarrow> response" where
  "with_totals env ok doc =
     (case compute_invoice_totals env doc of
        Inl e \<Rightarrow> Unhandled e
      | Inr totals \<Rightarrow>
          (case doc_to_dict (Some doc) of
             VDict inv_dict \<Rightarrow> ok (VDict (dict_set inv_dict ''totals'' (VDict totals)))
           | _ \<Rightarrow> Unhandled TypeError))"

text \<open>\<^verbatim>\<open>create_invoice()\<close>, the handler of \<^verbatim>\<open>POST /api/invoices\<close>.\<close>

definition create_invoice ::
  "pyenv \<Rightarrow> db \<Rightarrow> pyval \<Rightarrow> datetime \<Rightarrow> oid \<Rightarrow> response \<times> db" where
  "create_invoice env s body now new_id =
     (case py_or body (VDict []) of
        VDict data \<Rightarrow>
          let number = dict_get data ''number'';
              lines = py_or (dict_get data ''lines'') (VList [])
          in if \<not> truthy number \<or> \<not> truthy lines
             then (InvalidArgument ''number and lines are required'', s)
             else
               let printed_at = printed_at_of env (dict_get data ''printedAt'') now in
               (case py_float env (py_or (dict_get data ''taxRate'') (VInt 0)) of
                  Inl e \<Rightarrow> (Unhandled e, s)
                | Inr tax_rate \<Rightarrow>
                    (case py_float env (py_or (dict_get data ''discountRate'') (VInt 0)) of
                       Inl e \<Rightarrow> (Unhandled e, s)
                     | Inr discount_rate \<Rightarrow>
                         (case py_iter lines of
                            Inl e \<Rightarrow> (Unhandled e, s)
                          | Inr ls \<Rightarrow>
                              (case norm_lines env ls of
                                 Inl e \<Rightarrow> (Unhandled e, s)
                               | Inr nls \<Rightarrow>
                                   let invoice =
                                         [(''number'', number),
                                          (''printedAt'', VTime printed_at),
                                          (''customerName'',
                                           py_or (dict_get data ''customerName'') (VStr [])),
                                          (''customerPhone'',
                                           py_or (dict_get data ''customerPhone'') (VStr [])),
                                          (''taxRate'', VFloat tax_rate),
                                          (''discountRate'', VFloat discount_rate),
                                          (''lines'', VList (map VDict nls)),
                                          (''createdBy'',
                                           py_or (dict_get data ''createdBy'') (VStr []))];
                                       applied =
                                         (if truthy (dict_get data ''applyStockChange'')
                                          then apply_stock_change env (items_col s) nls
                                          else (None, items_col s));
                                       s1 = s\<lparr>items_col := snd applied\<rparr>
                                   in (case fst applied of
                                         Some e \<Rightarrow> (Unhandled e, s1)
                                       | None \<Rightarrow>
                                           (case insert_one (invoices_col s1) invoice
                                                   new_id of
                                              Inl e \<Rightarrow> (Unhandled e, s1)
                                            | Inr ic \<Rightarrow>
                                                (with_totals env Created
                                                   (dict_set invoice ''_id'' (VOid new_id)),
                                                 s1\<lparr>invoices_col := ic\<rparr>)))))))
      | _ \<Rightarrow> (Unhandled AttributeError, s))"

text \<open>
  One \<^verbatim>\<open>if "k" in data: update_fields["k"] = ...\<close> of \<^verbatim>\<open>update_invoice\<close>, the
  right-hand side being \<open>conv\<close> applied to \<^verbatim>\<open>data.get("k")\<close>.
\<close>

definition update_step ::
  "pyval \<Rightarrow> string \<Rightarrow> (pyval \<Rightarrow> pyerr + pyval) \<Rightarrow> pydict \<Rightarrow> pyerr + pydict" where
  "update_step data k conv acc =
     (case py_in k data of
        Inl e \<Rightarrow> Inl e
      | Inr False \<Rightarrow> Inr acc
      | Inr True \<Rightarrow>
          (case py_get data k of
             Inl e \<Rightarrow> Inl e
           | Inr v \<Rightarrow>
               (case conv v of
                  Inl e \<Rightarrow> Inl e
                | Inr v' \<Rightarrow> Inr (dict_set acc k v'))))"

definition conv_text :: "pyval \<Rightarrow> pyerr + pyval" where
  "conv_text v = Inr (py_or v (VStr []))"

definition conv_rate :: "pyenv \<Rightarrow> pyval \<Rightarrow> pyerr + pyval" where
  "conv_rate env v =
     (case py_float env (py_or v (VInt 0)) of Inl e \<Rightarrow> Inl e | Inr x \<Rightarrow> Inr (VFloat x))"

definition conv_lines :: "pyenv \<Rightarrow> pyval \<Rightarrow> pyerr + pyval" where
  "conv_lines env v =
     (case py_iter (py_or v (VList [])) of
        Inl e \<Rightarrow> Inl e
      | Inr ls \<Rightarrow>
          (case norm_lines env ls of
             Inl e \<Rightarrow> Inl e
           | Inr nls \<Rightarrow> Inr (VList (map VDict nls))))"

definition invoice_update_fields :: "pyenv \<Rightarrow> pyval \<Rightarrow> pyerr + pydict" where
  "invoice_update_fields env data =
     (case update_step data ''customerName'' conv_text [] of
        Inl e \<Rightarrow> Inl e
      | Inr f1 \<Rightarrow>
          (case update_step data ''customerPhone'' conv_text f1 of
             Inl e \<Rightarrow> Inl e
           | Inr f2 \<Rightarrow>
               (case update_step data ''taxRate'' (conv_rate env) f2 of
                  Inl e \<Rightarrow> Inl e
                | Inr f3 \<Rightarrow>
                    (case update_step data ''discountRate'' (conv_rate env) f3 of
                       Inl e \<Rightarrow> Inl e
                     | Inr f4 \<Rightarrow> update_step data ''lines'' (conv_lines env) f4))))"

text \<open>\<^verbatim>\<open>update_invoice(invoice_id)\<close>, the handler of
  \<^verbatim>\<open>PUT /api/invoices/<id>\<close>.\<close>

definition update_invoice :: "pyenv \<Rightarrow> db \<Rightarrow> string \<Rightarrow> pyval \<Rightarrow> response \<times> db" where
  "update_invoice env s invoice_id body =
     (case oid_of_str env invoice_id of
        None \<Rightarrow> (InvalidArgument ''Invalid invoice id'', s)
      | Some i \<Rightarrow>
          (case invoice_update_fields env (py_or body (VDict [])) of
             Inl e \<Rightarrow> (Unhandled e, s)
           | Inr update_fields \<Rightarrow>
               if update_fields = [] then (InvalidArgument ''Nothing to update'', s)
               else
                 let res = update_one (invoices_col s) i update_fields;
                     s1 = s\<lparr>invoices_col := snd res\<rparr>
                 in (case fst res of
                       Inl e \<Rightarrow> (Unhandled e, s1)
                     | Inr matched_count \<Rightarrow>
                         if matched_count = 0 then (NotFound ''Invoice not found'', s)
                         else
                           (case find_one (invoices_col s1) i of
                              None \<Rightarrow> (Unhandled AttributeError, s1)
                            | Some doc \<Rightarrow> (with_totals env Ok doc, s1)))))"

section \<open>Dashboard statistics\<close>

text \<open>
  \<^verbatim>\<open>categories.add(cat)\<close>. The set is kept as the list of its members in order of
  arrival. A list or a dict cannot be hashed; \<^verbatim>\<open>True\<close>, \<^verbatim>\<open>1\<close> and \<^verbatim>\<open>1.0\<close> are
  one member; a NaN read from the store is equal to nothing, not even to another NaN.
\<close>

definition hash_key :: "pyval \<Rightarrow> pyval" where
  "hash_key v =
     (case v of
        VBool b \<Rightarrow> VInt (if b then 1 else 0)
      | VFloat (Fin r) \<Rightarrow> (if of_int \<lfloor>r\<rfloor> = r then VInt \<lfloor>r\<rfloor> else v)
      | _ \<Rightarrow> v)"

definition set_add :: "pyval \<Rightarrow> pyval list \<Rightarrow> pyerr + pyval list" where
  "set_add v acc =
     (case v of
        VList xs \<Rightarrow> Inl TypeError
      | VDict d \<Rightarrow> Inl TypeError
      | VFloat NaN \<Rightarrow> Inr (acc @ [v])
      | _ \<Rightarrow> Inr (if hash_key v \<in> set acc then acc else acc @ [hash_key v]))"

record stats_acc =
  total_quantity :: int
  low_stock_items :: "pyval list"
  total_value :: pyfloat
  categories :: "pyval list"

text \<open>The loop of \<^verbatim>\<open>stats()\<close> over the documents.\<close>

fun stats_loop :: "pyenv \<Rightarrow> pydict list \<Rightarrow> stats_acc \<Rightarrow> pyerr + stats_acc" where
  "stats_loop env [] acc = Inr acc"
| "stats_loop env (d # ds) acc =
     (case py_int env (py_or (dict_get d ''quantity'') (VInt 0)) of
        Inl e \<Rightarrow> Inl e
      | Inr qty \<Rightarrow>
          (case py_int env (py_or (dict_get d ''minStockLevel'') (VInt 0)) of
             Inl e \<Rightarrow> Inl e
           | Inr min_stock \<Rightarrow>
               (case py_float env (py_or (dict_get d ''price'') (VInt 0)) of
                  Inl e \<Rightarrow> Inl e
                | Inr price \<Rightarrow>
                    (case float_of_int qty of
                       Inl e \<Rightarrow> Inl e
                     | Inr fq \<Rightarrow>
                         let cat = dict_get d ''category'' in
                         (case (if truthy cat then set_add cat (categories acc)
                                else Inr (categories acc)) of
                            Inl e \<Rightarrow> Inl e
                          | Inr cats \<Rightarrow>
                              stats_loop env ds
                                \<lparr>total_quantity = total_quantity acc + qty,
                                 low_stock_items =
                                   (if 0 < min_stock \<and> qty < min_stock
                                    then low_stock_items acc
                                           @ [py_or (dict_get d ''name'') (VStr [])]
                                    else low_stock_items acc),
                                 total_value = fadd (total_value acc) (fmul fq price),
                                 categories = cats\<rparr>)))))"

text \<open>\<^verbatim>\<open>stats()\<close>, the handler of \<^verbatim>\<open>GET /api/stats\<close>; it reads the store only.\<close>

definition stats :: "pyenv \<Rightarrow> db \<Rightarrow> response" where
  "stats env s =
     (case stats_loop env (items_col s)
             \<lparr>total_quantity = 0, low_stock_items = [], total_value = Fin 0,
              categories = []\<rparr> of
        Inl e \<Rightarrow> Unhandled e
      | Inr acc \<Rightarrow>
          Ok (VDict [(''totalQuantity'', VInt (total_quantity acc)),
                     (''lowStockCount'', VInt (int (length (low_stock_items acc)))),
                     (''lowStockItems'', VList (low_stock_items acc)),
                     (''totalInventoryValue'', VFloat (round2 (total_value acc))),
                     (''uniqueCategoriesCount'', VInt (int (length (categories acc))))]))"

section \<open>A concrete environment for examples\<close>

text \<open>
  An environment in which \<^verbatim>\<open>int()\<close> and \<^verbatim>\<open>float()\<close> read unsigned decimal digit
  strings, \<^verbatim>\<open>ObjectId()\<close> reads 24 lower-case hexadecimal digits, and no timestamp
  text is accepted. It serves to evaluate the handlers on examples.
\<close>

definition digit_of :: "char \<Rightarrow> nat option" where
  "digit_of c =
     (let n = (of_char c :: nat) in if 48 \<le> n \<and> n \<le> 57 then Some (n - 48) else None)"

fun dec_nat :: "nat \<Rightarrow> string \<Rightarrow> nat option" where
  "dec_nat acc [] = Some acc"
| "dec_nat acc (c # cs) =
     (case digit_of c of None \<Rightarrow> None | Some k \<Rightarrow> dec_nat (10 * acc + k) cs)"

definition dec_str :: "string \<Rightarrow> nat option" where
  "dec_str s = (if s = [] then None else dec_nat 0 s)"

definition example_env :: pyenv where
  "example_env =
     \<lparr>int_of_str = (\<lambda>s. map_option int (dec_str s)),
      float_of_str = (\<lambda>s. map_option (\<lambda>n. round64 (of_nat n)) (dec_str s)),
      oid_of_str = (\<lambda>s. if length s = 24 \<and> list_all (\<lambda>c. c \<in> set ''0123456789abcdef'') s
                         then Some s else None),
      parse_iso = (\<lambda>s. None)\<rparr>"

definition example_item :: pydict where
  "example_item =
     [(''_id'', VOid ''64b7f0c2a1d3e4f5a6b7c8d9''),
      (''name'', VStr ''USB-C Cable''),
      (''category'', VStr ''Electronics''),
      (''quantity'', VInt 5),
      (''minStockLevel'', VInt 10),
      (''price'', VFloat (Fin 2)),
      (''sku'', VStr ''ELEC-CABLE-004'')]"

definition example_db :: db where
  "example_db = \<lparr>items_col = [example_item], invoices_col = [], receipts_col = []\<rparr>"

section \<open>Notions used in the statements\<close>

text \<open>An item's quantity as every ledger operation reads it:
  \<^verbatim>\<open>int(doc.get("quantity") or 0)\<close>.\<close>

definition item_quantity :: "pyenv \<Rightarrow> pydict \<Rightarrow> pyerr + int" where
  "item_quantity env d = py_int env (py_or (dict_get d ''quantity'') (VInt 0))"

definition quantity_nonneg :: "pyenv \<Rightarrow> pydict \<Rightarrow> bool" where
  "quantity_nonneg env d = (case item_quantity env d of Inl e \<Rightarrow> False | Inr q \<Rightarrow> 0 \<le> q)"

text \<open>A sequence of calls to the two ledger entries, each with the request body, the clock
  reading and the fresh id of that call.\<close>

datatype ledger_call =
    AdjustStock string pyval datetime oid
  | ReceiveStock pyval datetime oid

fun run_call :: "pyenv \<Rightarrow> db \<Rightarrow> ledger_call \<Rightarrow> db" where
  "run_call env s (AdjustStock item_id body now new_id) =
     snd (adjust_stock env s item_id body now new_id)"
| "run_call env s (ReceiveStock body now new_id) =
     snd (receive_stock env s body now new_id)"

fun run_calls :: "pyenv \<Rightarrow> db \<Rightarrow> ledger_call list \<Rightarrow> db" where
  "run_calls env s [] = s"
| "run_calls env s (c # cs) = run_calls env (run_call env s c) cs"

definition is_invalid_argument :: "response \<Rightarrow> bool" where
  "is_invalid_argument r = (case r of InvalidArgument msg \<Rightarrow> True | _ \<Rightarrow> False)"

text \<open>An invoice as \<^verbatim>\<open>create_invoice\<close> stores it, and one whose only line costs
  nothing.\<close>

definition example_invoice :: pydict where
  "example_invoice =
     [(''number'', VStr ''INV-1001''),
      (''customerName'', VStr ''John Doe''),
      (''taxRate'', VFloat (Fin 8)),
      (''discountRate'', VFloat (Fin 10)),
      (''lines'',
       VList [VDict [(''itemId'', VOid ''64b7f0c2a1d3e4f5a6b7c8d9''),
                     (''name'', VStr ''USB-C Cable''),
                     (''sku'', VStr ''ELEC-CABLE-004''),
                     (''price'', VFloat (Fin 25)),
                     (''quantity'', VInt 4)]])]"

definition empty_sale :: pydict where
  "empty_sale =
     [(''number'', VStr ''INV-1002''),
      (''taxRate'', VFloat (Fin 8)),
      (''discountRate'', VFloat (Fin 10)),
      (''lines'',
       VList [VDict [(''itemId'', VNone),
                     (''name'', VStr ''Sample''),
                     (''sku'', VStr []),
                     (''price'', VFloat (Fin 0)),
                     (''quantity'', VInt 3)]])]"

subsection \<open>The totals as the specification words them\<close>

text \<open>An int that \<^verbatim>\<open>float()\<close> accepts, and a float that is a number.\<close>

definition float_range :: "int \<Rightarrow> bool" where
  "float_range n = (case round64 (of_int n) of Fin v \<Rightarrow> True | _ \<Rightarrow> False)"

definition is_finite :: "pyfloat \<Rightarrow> bool" where
  "is_finite x = (case x of Fin a \<Rightarrow> True | _ \<Rightarrow> False)"

text \<open>A stored invoice line with unit price \<open>p\<close> and quantity \<open>q\<close>.\<close>

definition is_line :: "pyval \<Rightarrow> pyfloat \<Rightarrow> int \<Rightarrow> bool" where
  "is_line l p q =
     (case l of
        VDict d \<Rightarrow> dict_get d ''price'' = VFloat p \<and> dict_get d ''quantity'' = VInt q
      | _ \<Rightarrow> False)"

text \<open>
  subtotal = \<open>\<Sum>\<close> price \<open>\<times>\<close> quantity, in line order; discountAmount = subtotal
  \<open>\<times>\<close> discountRate / 100; afterDiscount = max(0, subtotal - discountAmount); taxAmount =
  afterDiscount \<open>\<times>\<close> taxRate / 100; total = afterDiscount + taxAmount. Each operation is
  the float one.
\<close>

definition subtotal_of :: "(pyfloat \<times> int) list \<Rightarrow> pyfloat" where
  "subtotal_of pqs =
     foldl fadd (Fin 0) (map (\<lambda>pq. fmul (fst pq) (round64 (of_int (snd pq)))) pqs)"

definition discount_of :: "pyfloat \<Rightarrow> pyfloat \<Rightarrow> pyfloat" where
  "discount_of subtotal discount_rate = fdiv_const (fmul subtotal discount_rate) 100"

definition after_discount_of :: "pyfloat \<Rightarrow> pyfloat \<Rightarrow> pyfloat" where
  "after_discount_of subtotal discount_rate =
     max0 (fsub subtotal (discount_of subtotal discount_rate))"

definition tax_of :: "pyfloat \<Rightarrow> pyfloat \<Rightarrow> pyfloat \<Rightarrow> pyfloat" where
  "tax_of subtotal discount_rate tax_rate =
     fdiv_const (fmul (after_discount_of subtotal discount_rate) tax_rate) 100"

definition total_of :: "pyfloat \<Rightarrow> pyfloat \<Rightarrow> pyfloat \<Rightarrow> pyfloat" where
  "total_of subtotal discount_rate tax_rate =
     fadd (after_discount_of subtotal discount_rate) (tax_of subtotal discount_rate tax_rate)"

subsection \<open>The statistics as the specification words them\<close>

text \<open>What the statistics read of a stored item: its name and category (empty when the
  field is absent), quantity, reorder threshold and price.\<close>

record item_view =
  iv_name :: string
  iv_category :: string
  iv_quantity :: int
  iv_min :: int
  iv_price :: pyfloat

definition is_item :: "pydict \<Rightarrow> item_view \<Rightarrow> bool" where
  "is_item d v =
     ((dict_get d ''name'' = VStr (iv_name v) \<or>
       iv_name v = [] \<and> dict_get d ''name'' = VNone) \<and>
      (dict_get d ''category'' = VStr (iv_category v) \<or>
       iv_category v = [] \<and> dict_get d ''category'' = VNone) \<and>
      dict_get d ''quantity'' = VInt (iv_quantity v) \<and>
      dict_get d ''minStockLevel'' = VInt (iv_min v) \<and>
      dict_get d ''price'' = VFloat (iv_price v))"

definition low_stock :: "item_view \<Rightarrow> bool" where
  "low_stock v = (0 < iv_min v \<and> iv_quantity v < iv_min v)"

definition inventory_value :: "item_view list \<Rightarrow> pyfloat" where
  "inventory_value vs =
     foldl fadd (Fin 0) (map (\<lambda>v. fmul (round64 (of_int (iv_quantity v))) (iv_price v)) vs)"

definition add_cat :: "pyval list \<Rightarrow> string \<Rightarrow> pyval list" where
  "add_cat cs c = (if c = [] \<or> VStr c \<in> set cs then cs else cs @ [VStr c])"

text \<open>The two items of the specification's example, with names.\<close>

definition stats_items :: "pydict list" where
  "stats_items =
     [[(''_id'', VOid ''64b7f0c2a1d3e4f5a6b7c8d1''), (''name'', VStr ''Widget''),
       (''quantity'', VInt 5), (''minStockLevel'', VInt 10), (''price'', VFloat (Fin 2))],
      [(''_id'', VOid ''64b7f0c2a1d3e4f5a6b7c8d2''), (''name'', VStr ''Gadget''),
       (''category'', VStr ''A''),
       (''quantity'', VInt 20), (''minStockLevel'', VInt 5), (''price'', VFloat (Fin 1))]]"

definition stats_views :: "item_view list" where
  "stats_views =
     [\<lparr>iv_name = ''Widget'', iv_category = [], iv_quantity = 5, iv_min = 10, iv_price = Fin 2\<rparr>,
      \<lparr>iv_name = ''Gadget'', iv_category = ''A'', iv_quantity = 20, iv_min = 5,
       iv_price = Fin 1\<rparr>]"

subsection \<open>Invoice updates\<close>

text \<open>The five fields an update may carry, and \<^verbatim>\<open>k in data\<close> for the request body.\<close>

definition invoice_fields :: "string list" where
  "invoice_fields = [''customerName'', ''customerPhone'', ''taxRate'', ''discountRate'', ''lines'']"

definition present :: "string \<Rightarrow> pyval \<Rightarrow> bool" where
  "present k body = (py_in k (py_or body (VDict [])) = Inr True)"

text \<open>A store holding one invoice, and an update that replaces its lines by one line of
  50 units of the example item.\<close>

definition stored_invoice :: pydict where
  "stored_invoice =
     [(''_id'', VOid ''64b7f0c2a1d3e4f5a6b7c8e1''),
      (''number'', VStr ''INV-1001''),
      (''customerName'', VStr ''John Doe''),
      (''taxRate'', VFloat (Fin 8)),
      (''discountRate'', VFloat (Fin 10)),
      (''lines'',
       VList [VDict [(''itemId'', VOid ''64b7f0c2a1d3e4f5a6b7c8d9''),
                     (''name'', VStr ''USB-C Cable''),
                     (''sku'', VStr ''ELEC-CABLE-004''),
                     (''price'', VFloat (Fin 25)),
                     (''quantity'', VInt 4)]])]"

definition invoice_db :: db where
  "invoice_db = \<lparr>items_col = [example_item], invoices_col = [stored_invoice],
                  receipts_col = []\<rparr>"

definition new_lines :: pyval where
  "new_lines =
     VDict [(''lines'',
             VList [VDict [(''itemId'', VStr ''64b7f0c2a1d3e4f5a6b7c8d9''),
                           (''price'', VFloat (Fin 25)),
                           (''quantity'', VInt 50)]])]"

subsection \<open>Invoice creation\<close>

text \<open>
  An item whose quantity the ledger can read, and that quantity. A normalised invoice line:
  its item reference is an id or \<^verbatim>\<open>None\<close>, its price a float, its quantity an int.
\<close>
definition qty_or0 :: "pyenv \<Rightarrow> pydict \<Rightarrow> int" where
  "qty_or0 env d = (case item_quantity env d of Inl e \<Rightarrow> 0 | Inr q \<Rightarrow> q)"

definition readable :: "pyenv \<Rightarrow> pydict \<Rightarrow> bool" where
  "readable env d = (case item_quantity env d of Inl e \<Rightarrow> False | Inr q \<Rightarrow> True)"

definition normal_line :: "pydict \<Rightarrow> bool" where
  "normal_line l =
     ((case dict_get l ''itemId'' of VOid i \<Rightarrow> True | VNone \<Rightarrow> True | _ \<Rightarrow> False) \<and>
      (case dict_get l ''price'' of VFloat p \<Rightarrow> True | _ \<Rightarrow> False) \<and>
      (case dict_get l ''quantity'' of VInt n \<Rightarrow> True | _ \<Rightarrow> False))"

definition line_qty :: "pydict \<Rightarrow> int" where
  "line_qty l = (case dict_get l ''quantity'' of VInt n \<Rightarrow> n | _ \<Rightarrow> 0)"

text \<open>
  The quantities of the lines that refer to item \<open>i\<close>, in line order; the quantity left
  of \<open>q\<close> after selling them one after the other with the floor at zero; and the item
  document after that sale.
\<close>

definition sold_to :: "oid \<Rightarrow> pydict list \<Rightarrow> int list" where
  "sold_to i nls = map line_qty (filter (\<lambda>l. dict_get l ''itemId'' = VOid i) nls)"

definition clamp_all :: "int \<Rightarrow> int list \<Rightarrow> int" where
  "clamp_all q ns = foldl (\<lambda>q n. max 0 (q - n)) q ns"

definition after_sale :: "pyenv \<Rightarrow> pydict \<Rightarrow> int list \<Rightarrow> pydict" where
  "after_sale env doc ns =
     (if ns = [] then doc
      else dict_set doc ''quantity'' (VInt (clamp_all (qty_or0 env doc) ns)))"

text \<open>A sale of three lines: 50 units of the example item (which has 5), one unit of an
  item that is not in the store, and a line whose item id is malformed.\<close>

definition sale_body :: pyval where
  "sale_body =
     VDict [(''number'', VStr ''INV-2001''),
            (''customerName'', VStr ''Jane Roe''),
            (''lines'',
             VList [VDict [(''itemId'', VStr ''64b7f0c2a1d3e4f5a6b7c8d9''),
                           (''name'', VStr ''USB-C Cable''),
                           (''price'', VFloat (Fin 2)),
                           (''quantity'', VInt 50)],
                    VDict [(''itemId'', VStr ''64b7f0c2a1d3e4f5a6b7c8ff''),
                           (''name'', VStr ''Deleted item''),
                           (''price'', VFloat (Fin 1)),
                           (''quantity'', VInt 1)],
                    VDict [(''itemId'', VStr ''not-an-id''),
                           (''name'', VStr ''Misc''),
                           (''quantity'', VInt 2)]]),
            (''applyStockChange'', VBool True)]"

section \<open>Verified properties\<close>

subsection \<open>Dicts and collections\<close>

lemma dict_get_dict_set:
  "dict_get (dict_set d k v) k' = (if k' = k then v else dict_get d k')"
  by (induction d) (auto simp: dict_get_def)

lemma dict_get_set_fields_notin:
  "k \<notin> fst ` set fs \<Longrightarrow> dict_get (set_fields d fs) k = dict_get d k"
  by (induction fs arbitrary: d) (auto simp: dict_get_dict_set)

lemma length_update_one [simp]: "length (snd (update_one col i fs)) = length col"
  by (induction col) auto

lemma nth_update_one:
  "j < length col \<Longrightarrow>
   snd (update_one col i fs) ! j = col ! j \<or>
   snd (update_one col i fs) ! j = set_fields (col ! j) fs"
proof (induction col arbitrary: j)
  case Nil
  then show ?case by simp
next
  case (Cons d ds)
  then show ?case by (cases j) auto
qed

lemma has_id_set_fields:
  "''_id'' \<notin> fst ` set fs \<Longrightarrow> has_id i (set_fields d fs) = has_id i d"
  by (simp add: has_id_def dict_get_set_fields_notin)

text \<open>Updating a document that is there: the process finds the changed document
  afterwards, whether or not the store could write it.\<close>

lemma update_one_found:
  assumes "find_one col i = Some doc" and "''_id'' \<notin> fst ` set fs"
  shows "fst (update_one col i fs)
           = (if doc_ok (set_fields doc fs) then Inr 1 else Inl OverflowError) \<and>
         find_one (snd (update_one col i fs)) i = Some (set_fields doc fs)"
  using assms
  by (induction col) (auto simp: find_one_def has_id_set_fields split: if_splits)

lemma update_one_missing:
  "find_one col i = None \<Longrightarrow> update_one col i fs = (Inr 0, col)"
  by (induction col) (auto simp: find_one_def prod_eq_iff split: if_splits)

lemma example_oid:
  "oid_of_str example_env ''64b7f0c2a1d3e4f5a6b7c8d9'' = Some ''64b7f0c2a1d3e4f5a6b7c8d9''"
  by (simp add: example_env_def)

lemma example_find:
  "find_one (items_col example_db) ''64b7f0c2a1d3e4f5a6b7c8d9'' = Some example_item"
  by (simp add: example_db_def find_one_def has_id_def example_item_def dict_get_def)

subsection \<open>Stock ledger\<close>

text \<open>
  What \<^verbatim>\<open>adjust_stock\<close> does for an existing item and an integer delta. The item the
  process finds afterwards has the quantity \<open>max 0 (q + delta)\<close>. No receipt is written
  when the delta is not positive. When the delta is positive and the store accepts both
  writes, one receipt is appended; its quantity is the delta and it has no
  \<^verbatim>\<open>previousQuantity\<close> and no \<^verbatim>\<open>newQuantity\<close> field.
\<close>

lemma adjust_stock_item:
  assumes "oid_of_str env item_id = Some i" and "find_one (items_col s) i = Some doc"
    and "item_quantity env doc = Inr q" and "dict_get data ''delta'' = VInt delta"
  shows "find_one (items_col (snd (adjust_stock env s item_id (VDict data) now new_id))) i
           = Some (dict_set doc ''quantity'' (VInt (max 0 (q + delta))))"
proof -
  from assms(4) have "data \<noteq> []" by (auto simp: dict_get_def)
  then have d: "py_or (VDict data) (VDict []) = VDict data" by (simp add: py_or_def)
  have pi: "py_int env (py_or (VInt delta) (VInt 0)) = Inr delta"
    by (simp add: py_or_def)
  have u: "find_one (snd (update_one (items_col s) i [(''quantity'', VInt (max 0 (q + delta)))])) i
          = Some (set_fields doc [(''quantity'', VInt (max 0 (q + delta)))])"
    using update_one_found [OF assms(2), of "[(''quantity'', VInt (max 0 (q + delta)))]"]
    by simp
  from assms d pi u show ?thesis
    by (simp add: adjust_stock_def Let_def item_quantity_def split: sum.splits)
qed

lemma adjust_stock_receipt:
  assumes "oid_of_str env item_id = Some i" and "find_one (items_col s) i = Some doc"
    and "item_quantity env doc = Inr q" and "dict_get data ''delta'' = VInt delta"
  shows "delta \<le> 0 \<Longrightarrow>
           receipts_col (snd (adjust_stock env s item_id (VDict data) now new_id))
             = receipts_col s"
    and "0 < delta \<Longrightarrow>
           fst (adjust_stock env s item_id (VDict data) now new_id) \<noteq> Unhandled OverflowError
           \<Longrightarrow>
           \<exists>r. receipts_col (snd (adjust_stock env s item_id (VDict data) now new_id))
                  = receipts_col s @ [r] \<and>
                dict_get r ''quantity'' = VInt delta \<and> dict_get r ''itemId'' = VOid i \<and>
                \<not> has_key r ''previousQuantity'' \<and> \<not> has_key r ''newQuantity''"
proof -
  from assms(4) have "data \<noteq> []" by (auto simp: dict_get_def)
  then have d: "py_or (VDict data) (VDict []) = VDict data" by (simp add: py_or_def)
  have pi: "py_int env (py_or (VInt delta) (VInt 0)) = Inr delta"
    by (simp add: py_or_def)
  from assms d pi
  show "delta \<le> 0 \<Longrightarrow>
           receipts_col (snd (adjust_stock env s item_id (VDict data) now new_id))
             = receipts_col s"
    by (simp add: adjust_stock_def Let_def item_quantity_def split: sum.splits)
  from assms d pi
  show "0 < delta \<Longrightarrow>
           fst (adjust_stock env s item_id (VDict data) now new_id) \<noteq> Unhandled OverflowError
           \<Longrightarrow>
           \<exists>r. receipts_col (snd (adjust_stock env s item_id (VDict data) now new_id))
                  = receipts_col s @ [r] \<and>
                dict_get r ''quantity'' = VInt delta \<and> dict_get r ''itemId'' = VOid i \<and>
                \<not> has_key r ''previousQuantity'' \<and> \<not> has_key r ''newQuantity''"
    using update_one_found [OF assms(2), of "[(''quantity'', VInt (max 0 (q + delta)))]"]
    by (auto simp: adjust_stock_def Let_def item_quantity_def insert_one_def dict_get_def
          has_key_def split: sum.splits if_splits)
qed

lemma receive_stock_item:
  assumes "dict_get data ''itemId'' = VStr sid" and "sid \<noteq> []"
    and "oid_of_str env sid = Some i" and "find_one (items_col s) i = Some doc"
    and "item_quantity env doc = Inr q" and "dict_get data ''quantity'' = VInt n" and "0 < n"
  shows "find_one (items_col (snd (receive_stock env s (VDict data) now new_id))) i
           = Some (dict_set doc ''quantity'' (VInt (max 0 (q + n))))"
proof -
  from assms(1) have "data \<noteq> []" by (auto simp: dict_get_def)
  then have d: "py_or (VDict data) (VDict []) = VDict data" by (simp add: py_or_def)
  from assms(7) have pi: "py_int env (py_or (VInt n) (VInt 0)) = Inr n"
    by (simp add: py_or_def)
  have u: "find_one (snd (update_one (items_col s) i [(''quantity'', VInt (max 0 (q + n)))])) i
          = Some (set_fields doc [(''quantity'', VInt (max 0 (q + n)))])"
    using update_one_found [OF assms(4), of "[(''quantity'', VInt (max 0 (q + n)))]"]
    by simp
  from assms d pi u show ?thesis
    by (simp add: receive_stock_def Let_def item_quantity_def split: sum.splits)
qed

text \<open>
  C1. The claim asks that the receipt appended by \<^verbatim>\<open>adjust_stock\<close> for a positive
  delta records the quantity before and after the update. Evaluated on an item holding 5
  units and a delta of 3, the handler appends a receipt with the seven fields below and the
  id: the quantity is the delta, but \<^verbatim>\<open>previousQuantity\<close> and \<^verbatim>\<open>newQuantity\<close> are
  missing, although \<^verbatim>\<open>receipts()\<close> writes both into the same collection.
\<close>

theorem adjust_stock_receipt_lacks_quantities:
  "receipts_col (snd (adjust_stock example_env example_db ''64b7f0c2a1d3e4f5a6b7c8d9''
       (VDict [(''delta'', VInt 3)]) ''2025-01-01T12:00:00'' ''64b7f0c2a1d3e4f5a6b7c8da'')) =
     [[(''itemId'', VOid ''64b7f0c2a1d3e4f5a6b7c8d9''),
       (''sku'', VStr ''ELEC-CABLE-004''),
       (''name'', VStr ''USB-C Cable''),
       (''quantity'', VInt 3),
       (''receivedAt'', VTime ''2025-01-01T12:00:00''),
       (''createdAt'', VTime ''2025-01-01T12:00:00''),
       (''receivedBy'', VNone),
       (''_id'', VOid ''64b7f0c2a1d3e4f5a6b7c8da'')]]"
  by code_simp

lemma quantity_nonneg_set:
  "0 \<le> n \<Longrightarrow> quantity_nonneg env (set_fields d [(''quantity'', VInt n)])"
  by (simp add: quantity_nonneg_def item_quantity_def dict_get_dict_set py_or_def)

lemma update_one_nonneg:
  assumes "0 \<le> n" and "j < length col" and "quantity_nonneg env (col ! j)"
  shows "quantity_nonneg env (snd (update_one col i [(''quantity'', VInt n)]) ! j)"
  using nth_update_one [OF assms(2), of i "[(''quantity'', VInt n)]"] assms(3)
    quantity_nonneg_set [OF assms(1), of env "col ! j"]
  by auto

lemma adjust_stock_nonneg:
  assumes "j < length (items_col s)" and "quantity_nonneg env (items_col s ! j)"
  shows "j < length (items_col (snd (adjust_stock env s item_id body now new_id))) \<and>
         quantity_nonneg env (items_col (snd (adjust_stock env s item_id body now new_id)) ! j)"
  using assms unfolding adjust_stock_def Let_def
  by (auto split: option.splits sum.splits pyval.splits intro!: update_one_nonneg)

lemma receive_stock_nonneg:
  assumes "j < length (items_col s)" and "quantity_nonneg env (items_col s ! j)"
  shows "j < length (items_col (snd (receive_stock env s body now new_id))) \<and>
         quantity_nonneg env (items_col (snd (receive_stock env s body now new_id)) ! j)"
  using assms unfolding receive_stock_def Let_def
  by (auto split: option.splits sum.splits pyval.splits intro!: update_one_nonneg)

lemma run_call_nonneg:
  assumes "j < length (items_col s)" and "quantity_nonneg env (items_col s ! j)"
  shows "j < length (items_col (run_call env s c)) \<and>
         quantity_nonneg env (items_col (run_call env s c) ! j)"
  using assms by (cases c) (simp_all add: adjust_stock_nonneg receive_stock_nonneg)

lemma run_calls_nonneg:
  assumes "j < length (items_col s)" and "quantity_nonneg env (items_col s ! j)"
  shows "j < length (items_col (run_calls env s cs)) \<and>
         quantity_nonneg env (items_col (run_calls env s cs) ! j)"
  using assms
proof (induction cs arbitrary: s)
  case Nil
  then show ?case by simp
next
  case (Cons c cs)
  from run_call_nonneg [OF Cons.prems, of c] show ?case
    by (simp add: Cons.IH)
qed

text \<open>
  C2. Each update writes \<open>max 0 (q + delta)\<close>: after \<^verbatim>\<open>adjust_stock\<close> with an integer
  delta, and after a \<^verbatim>\<open>receipts\<close> POST with a positive integer quantity, the item found
  under the id is the old document with its quantity set to that value, \<open>q\<close> being the
  quantity read before the call. And whatever the request bodies are, a sequence of such
  calls keeps the item at position \<open>j\<close> of the collection in place, and if its quantity
  was a non-negative integer before the sequence it is one after it.
\<close>

theorem quantity_never_negative:
  "(j < length (items_col s) \<and> quantity_nonneg env (items_col s ! j) \<longrightarrow>
      j < length (items_col (run_calls env s cs)) \<and>
      quantity_nonneg env (items_col (run_calls env s cs) ! j)) \<and>
   (oid_of_str env item_id = Some i \<and> find_one (items_col s) i = Some doc \<and>
    item_quantity env doc = Inr q \<and> dict_get data ''delta'' = VInt delta \<longrightarrow>
      find_one (items_col (run_call env s (AdjustStock item_id (VDict data) now new_id))) i
        = Some (dict_set doc ''quantity'' (VInt (max 0 (q + delta))))) \<and>
   (dict_get rdata ''itemId'' = VStr sid \<and> sid \<noteq> [] \<and> oid_of_str env sid = Some i \<and>
    find_one (items_col s) i = Some doc \<and> item_quantity env doc = Inr q \<and>
    dict_get rdata ''quantity'' = VInt n \<and> 0 < n \<longrightarrow>
      find_one (items_col (run_call env s (ReceiveStock (VDict rdata) now new_id))) i
        = Some (dict_set doc ''quantity'' (VInt (max 0 (q + n)))))"
  using run_calls_nonneg [of j s env cs]
    adjust_stock_item [of env item_id i s doc q data delta now new_id]
    receive_stock_item [of rdata sid env i s doc q n now new_id]
  by simp

theorem quantity_never_negative_witness:
  "0 < length (items_col example_db) \<and>
   quantity_nonneg example_env (items_col example_db ! 0) \<and>
   quantity_nonneg example_env (items_col (run_calls example_env example_db
         [AdjustStock ''64b7f0c2a1d3e4f5a6b7c8d9'' (VDict [(''delta'', VInt (- 40))])
            ''2025-01-01T12:00:00'' ''64b7f0c2a1d3e4f5a6b7c8da'',
          ReceiveStock (VDict [(''itemId'', VStr ''64b7f0c2a1d3e4f5a6b7c8d9''),
                               (''quantity'', VInt 3)])
            ''2025-01-02T12:00:00'' ''64b7f0c2a1d3e4f5a6b7c8db'']) ! 0) \<and>
   item_quantity example_env example_item = Inr 5 \<and>
   find_one (items_col (run_call example_env example_db
         (AdjustStock ''64b7f0c2a1d3e4f5a6b7c8d9'' (VDict [(''delta'', VInt (- 40))])
            ''2025-01-01T12:00:00'' ''64b7f0c2a1d3e4f5a6b7c8da''))) ''64b7f0c2a1d3e4f5a6b7c8d9''
     = Some (dict_set example_item ''quantity'' (VInt 0)) \<and>
   find_one (items_col (run_call example_env example_db
         (ReceiveStock (VDict [(''itemId'', VStr ''64b7f0c2a1d3e4f5a6b7c8d9''),
                               (''quantity'', VInt 3)])
            ''2025-01-02T12:00:00'' ''64b7f0c2a1d3e4f5a6b7c8db''))) ''64b7f0c2a1d3e4f5a6b7c8d9''
     = Some (dict_set example_item ''quantity'' (VInt 8))"
proof -
  have l: "0 < length (items_col example_db)"
    by (simp add: example_db_def)
  have q: "quantity_nonneg example_env (items_col example_db ! 0)"
    by (simp add: example_db_def example_item_def quantity_nonneg_def item_quantity_def
          dict_get_def py_or_def)
  have iq: "item_quantity example_env example_item = Inr 5"
    by (simp add: example_item_def item_quantity_def dict_get_def py_or_def)
  have d: "dict_get [(''delta'', VInt (- 40))] ''delta'' = VInt (- 40)"
    by (simp add: dict_get_def)
  have r: "dict_get [(''itemId'', VStr ''64b7f0c2a1d3e4f5a6b7c8d9''), (''quantity'', VInt 3)]
             ''itemId'' = VStr ''64b7f0c2a1d3e4f5a6b7c8d9''"
    "dict_get [(''itemId'', VStr ''64b7f0c2a1d3e4f5a6b7c8d9''), (''quantity'', VInt 3)]
             ''quantity'' = VInt 3"
    by (simp_all add: dict_get_def)
  from quantity_never_negative
    [where j = 0 and s = example_db and env = example_env
       and cs = "[AdjustStock ''64b7f0c2a1d3e4f5a6b7c8d9'' (VDict [(''delta'', VInt (- 40))])
                    ''2025-01-01T12:00:00'' ''64b7f0c2a1d3e4f5a6b7c8da'',
                  ReceiveStock (VDict [(''itemId'', VStr ''64b7f0c2a1d3e4f5a6b7c8d9''),
                                       (''quantity'', VInt 3)])
                    ''2025-01-02T12:00:00'' ''64b7f0c2a1d3e4f5a6b7c8db'']"
       and item_id = "''64b7f0c2a1d3e4f5a6b7c8d9''" and i = "''64b7f0c2a1d3e4f5a6b7c8d9''"
       and doc = example_item and q = 5 and data = "[(''delta'', VInt (- 40))]"
       and delta = "- 40" and now = "''2025-01-01T12:00:00''"
       and new_id = "''64b7f0c2a1d3e4f5a6b7c8da''"
       and rdata = "[(''itemId'', VStr ''64b7f0c2a1d3e4f5a6b7c8d9''), (''quantity'', VInt 3)]"
       and sid = "''64b7f0c2a1d3e4f5a6b7c8d9''" and n = 3]
    l q iq d r example_oid example_find
  have a: "quantity_nonneg example_env (items_col (run_calls example_env example_db
         [AdjustStock ''64b7f0c2a1d3e4f5a6b7c8d9'' (VDict [(''delta'', VInt (- 40))])
            ''2025-01-01T12:00:00'' ''64b7f0c2a1d3e4f5a6b7c8da'',
          ReceiveStock (VDict [(''itemId'', VStr ''64b7f0c2a1d3e4f5a6b7c8d9''),
                               (''quantity'', VInt 3)])
            ''2025-01-02T12:00:00'' ''64b7f0c2a1d3e4f5a6b7c8db'']) ! 0)"
    and b: "find_one (items_col (run_call example_env example_db
         (AdjustStock ''64b7f0c2a1d3e4f5a6b7c8d9'' (VDict [(''delta'', VInt (- 40))])
            ''2025-01-01T12:00:00'' ''64b7f0c2a1d3e4f5a6b7c8da''))) ''64b7f0c2a1d3e4f5a6b7c8d9''
       = Some (dict_set example_item ''quantity'' (VInt 0))"
    by (simp_all del: run_calls.simps run_call.simps)
  have c: "find_one (items_col (run_call example_env example_db
         (ReceiveStock (VDict [(''itemId'', VStr ''64b7f0c2a1d3e4f5a6b7c8d9''),
                               (''quantity'', VInt 3)])
            ''2025-01-02T12:00:00'' ''64b7f0c2a1d3e4f5a6b7c8db''))) ''64b7f0c2a1d3e4f5a6b7c8d9''
     = Some (dict_set example_item ''quantity'' (VInt 8))"
    using quantity_never_negative
    [where s = example_db and env = example_env
       and i = "''64b7f0c2a1d3e4f5a6b7c8d9''"
       and doc = example_item and q = 5 and now = "''2025-01-02T12:00:00''"
       and new_id = "''64b7f0c2a1d3e4f5a6b7c8db''"
       and rdata = "[(''itemId'', VStr ''64b7f0c2a1d3e4f5a6b7c8d9''), (''quantity'', VInt 3)]"
       and sid = "''64b7f0c2a1d3e4f5a6b7c8d9''" and n = 3]
    iq r example_oid example_find
    by (simp del: run_calls.simps run_call.simps)
  from l q iq a b c show ?thesis by blast
qed

text \<open>The two calls one after the other: 5 - 40 is clamped to 0, then 3 units are
  received.\<close>

lemma ledger_example:
  "map (\<lambda>d. dict_get d ''quantity'')
     (items_col (run_calls example_env example_db
         [AdjustStock ''64b7f0c2a1d3e4f5a6b7c8d9'' (VDict [(''delta'', VInt (- 40))])
            ''2025-01-01T12:00:00'' ''64b7f0c2a1d3e4f5a6b7c8da'',
          ReceiveStock (VDict [(''itemId'', VStr ''64b7f0c2a1d3e4f5a6b7c8d9''),
                               (''quantity'', VInt 3)])
            ''2025-01-02T12:00:00'' ''64b7f0c2a1d3e4f5a6b7c8db''])) = [VInt 3]"
  by code_simp

text \<open>
  The store's limit in the ledger: a delta of \<open>2\<^sup>6\<^sup>3\<close> makes the write of the item
  raise. The caller gets an unclassified failure and no receipt is written, while the
  process sees the item with the new quantity.
\<close>

lemma adjust_stock_store_overflow:
  "adjust_stock example_env example_db ''64b7f0c2a1d3e4f5a6b7c8d9''
     (VDict [(''delta'', VInt 9223372036854775808)])
     ''2025-01-01T12:00:00'' ''64b7f0c2a1d3e4f5a6b7c8da''
   = (Unhandled OverflowError,
      example_db\<lparr>items_col :=
        [dict_set example_item ''quantity'' (VInt 9223372036854775813)]\<rparr>)"
  by (simp add: adjust_stock_def example_db_def example_item_def example_env_def dict_get_def
        py_or_def find_one_def has_id_def doc_ok_def Let_def)

text \<open>
  C3. A \<^verbatim>\<open>POST /api/receipts\<close> whose quantity is an integer \<open>q \<le> 0\<close> is answered with
  status 400 and leaves the whole store as it was: no receipt, no quantity change. This
  holds for every item id in the body, existing or not.
\<close>

theorem receive_stock_rejects_nonpositive:
  assumes "dict_get data ''quantity'' = VInt q" and "q \<le> 0"
  shows "is_invalid_argument (fst (receive_stock env s (VDict data) now new_id)) \<and>
         snd (receive_stock env s (VDict data) now new_id) = s"
proof -
  from assms(1) have "data \<noteq> []" by (auto simp: dict_get_def)
  then have d: "py_or (VDict data) (VDict []) = VDict data" by (simp add: py_or_def)
  have "py_int env (py_or (VInt q) (VInt 0)) = Inr q \<or>
        py_int env (py_or (VInt q) (VInt 0)) = Inr 0"
    by (simp add: py_or_def)
  with assms d show ?thesis
    by (auto simp: receive_stock_def Let_def is_invalid_argument_def split: option.splits)
qed

theorem receive_stock_rejects_nonpositive_witness:
  "dict_get [(''itemId'', VStr ''64b7f0c2a1d3e4f5a6b7c8d9''), (''quantity'', VInt (- 4))]
     ''quantity'' = VInt (- 4) \<and> (- 4 :: int) \<le> 0 \<and>
   find_one (items_col example_db) ''64b7f0c2a1d3e4f5a6b7c8d9'' = Some example_item \<and>
   receive_stock example_env example_db
     (VDict [(''itemId'', VStr ''64b7f0c2a1d3e4f5a6b7c8d9''), (''quantity'', VInt (- 4))])
     ''2025-01-01T12:00:00'' ''64b7f0c2a1d3e4f5a6b7c8da''
     = (InvalidArgument ''quantity must be > 0'', example_db)"
proof -
  have q: "dict_get [(''itemId'', VStr ''64b7f0c2a1d3e4f5a6b7c8d9''), (''quantity'', VInt (- 4))]
             ''quantity'' = VInt (- 4)"
    by (simp add: dict_get_def)
  have r: "fst (receive_stock example_env example_db
     (VDict [(''itemId'', VStr ''64b7f0c2a1d3e4f5a6b7c8d9''), (''quantity'', VInt (- 4))])
     ''2025-01-01T12:00:00'' ''64b7f0c2a1d3e4f5a6b7c8da'')
     = InvalidArgument ''quantity must be > 0''"
    by code_simp
  from receive_stock_rejects_nonpositive [OF q, of example_env example_db
      "''2025-01-01T12:00:00''" "''64b7f0c2a1d3e4f5a6b7c8da''"] q r example_find
  show ?thesis by (simp add: prod_eq_iff)
qed

subsection \<open>Item update\<close>

text \<open>
  C7. \<^verbatim>\<open>update_item\<close> converts the quantity with a bare \<^verbatim>\<open>int(value)\<close>: for the
  body \<^verbatim>\<open>{"quantity": "abc"}\<close> the ValueError escapes from the handler, so the caller
  gets an unclassified failure and not the 400 that \<^verbatim>\<open>create_item\<close> and
  \<^verbatim>\<open>adjust_stock\<close> return for the same mistake. The store is not changed.
\<close>

theorem update_item_unclassified_failure:
  "update_item example_env example_db ''64b7f0c2a1d3e4f5a6b7c8d9''
     (VDict [(''quantity'', VStr ''abc'')]) = (Unhandled ValueError, example_db)"
  by code_simp

lemma collect_quantity_only:
  "collect_fields env (VDict [(''quantity'', VInt n)]) item_fields []
     = Inr [(''quantity'', VInt n)]"
  by (simp add: item_fields_def has_key_def dict_get_def coerce_field_def)

text \<open>
  C10. For an existing item and a negative integer \<open>n\<close>, \<^verbatim>\<open>update_item\<close> with the body
  \<^verbatim>\<open>{"quantity": n}\<close> stores \<open>n\<close> itself: the document found afterwards is the old
  one with its quantity set to \<open>n\<close>, so its quantity is negative.
\<close>

theorem update_item_stores_negative_quantity:
  assumes "oid_of_str env item_id = Some i" and "find_one (items_col s) i = Some doc"
    and "n < 0"
  shows "find_one (items_col (snd (update_item env s item_id
                                     (VDict [(''quantity'', VInt n)])))) i
           = Some (dict_set doc ''quantity'' (VInt n)) \<and>
         dict_get (dict_set doc ''quantity'' (VInt n)) ''quantity'' = VInt n \<and>
         \<not> quantity_nonneg env (dict_set doc ''quantity'' (VInt n))"
proof -
  have u: "find_one (snd (update_one (items_col s) i [(''quantity'', VInt n)])) i
          = Some (set_fields doc [(''quantity'', VInt n)])"
    using update_one_found [OF assms(2), of "[(''quantity'', VInt n)]"] by simp
  have f: "fst (update_one (items_col s) i [(''quantity'', VInt n)]) = Inr 1 \<or>
           fst (update_one (items_col s) i [(''quantity'', VInt n)]) = Inl OverflowError"
    using update_one_found [OF assms(2), of "[(''quantity'', VInt n)]"] by simp
  have p: "py_or (VDict [(''quantity'', VInt n)]) (VDict []) = VDict [(''quantity'', VInt n)]"
    by (simp add: py_or_def)
  from assms(3) have nn: "\<not> quantity_nonneg env (dict_set doc ''quantity'' (VInt n))"
    by (simp add: quantity_nonneg_def item_quantity_def dict_get_dict_set py_or_def)
  from f assms(1) u p nn show ?thesis
    by (elim disjE) (simp_all add: update_item_def collect_quantity_only Let_def
          dict_get_dict_set)
qed

theorem update_item_stores_negative_quantity_witness:
  "oid_of_str example_env ''64b7f0c2a1d3e4f5a6b7c8d9'' = Some ''64b7f0c2a1d3e4f5a6b7c8d9'' \<and>
   find_one (items_col example_db) ''64b7f0c2a1d3e4f5a6b7c8d9'' = Some example_item \<and>
   (- 7 :: int) < 0 \<and>
   find_one (items_col (snd (update_item example_env example_db ''64b7f0c2a1d3e4f5a6b7c8d9''
        (VDict [(''quantity'', VInt (- 7))])))) ''64b7f0c2a1d3e4f5a6b7c8d9''
     = Some (dict_set example_item ''quantity'' (VInt (- 7))) \<and>
   dict_get (dict_set example_item ''quantity'' (VInt (- 7))) ''quantity'' = VInt (- 7) \<and>
   \<not> quantity_nonneg example_env (dict_set example_item ''quantity'' (VInt (- 7)))"
proof -
  have n: "(- 7 :: int) < 0" by simp
  from update_item_stores_negative_quantity [OF example_oid example_find n] example_find n
  show ?thesis by (simp add: example_oid)
qed

subsection \<open>Evaluating float arithmetic\<close>

lemma floor_num_div: "\<lfloor>numeral a / numeral b :: rat\<rfloor> = numeral a div numeral b"
  using floor_divide_of_int_eq [of "numeral a" "numeral b", where ?'a = rat] by simp

lemma ceiling_num_div:
  "\<lceil>numeral a / numeral b :: rat\<rceil> = - ((- numeral a) div numeral b)"
  using ceiling_divide_eq_div [of "numeral a" "numeral b", where ?'a = rat] by simp

lemma bits_numeral: "bits (numeral k) = Suc (bits (numeral k div 2))"
  by (subst bits.simps) simp

lemma bits_0: "bits 0 = 0"
  by (subst bits.simps) simp

lemma bits_1: "bits 1 = 1"
  by (subst bits.simps) (simp add: bits_0)

lemma bits_Suc_0: "bits (Suc 0) = 1"
  by (subst bits.simps) (simp add: bits_0)

lemmas float_eval =
  round64_def ilog2_def rhe_def pow2_def Let_def floor_num_div ceiling_num_div
  bits_numeral bits_0 bits_1 bits_Suc_0 round2_def fdiv_const_def fsub_def max0_def

lemma round64_0 [simp]: "round64 0 = Fin 0"
  by (simp add: round64_def)

lemma float_of_int_0 [simp]: "float_of_int 0 = Inr (Fin 0)"
  by (simp add: float_of_int_def)

lemma fdiv_const_0 [simp]: "fdiv_const (Fin 0) c = Fin 0"
  by (simp add: fdiv_const_def)

lemma rhe_0 [simp]: "rhe 0 = 0"
  by (simp add: rhe_def)

lemma round2_0 [simp]: "round2 (Fin 0) = Fin 0"
  by (simp add: round2_def)

lemma round2_100: "round2 (Fin 100) = Fin 100"
  by (simp add: float_eval)

lemma py_float_stored [simp]: "py_float env (py_or (VFloat x) (VInt 0)) = Inr x"
  by (simp add: py_or_def)

lemma py_int_stored [simp]: "py_int env (py_or (VInt n) (VInt 0)) = Inr n"
  by (simp add: py_or_def)

lemma float_of_int_range: "float_range n \<Longrightarrow> float_of_int n = Inr (round64 (of_int n))"
  by (simp add: float_range_def float_of_int_def split: pyfloat.splits)

lemma float_range_small: "float_range 4" "float_range 3"
  by (simp_all add: float_range_def float_eval)

text \<open>
  The model on values where binary64 differs from exact arithmetic: \<^verbatim>\<open>0.1 + 0.2\<close> is
  \<^verbatim>\<open>0.30000000000000004\<close> and not the float of \<^verbatim>\<open>0.3\<close>; \<^verbatim>\<open>round(2.675, 2)\<close>
  is \<^verbatim>\<open>2.67\<close>, the float of \<^verbatim>\<open>2.675\<close> lying below the tie;
  \<^verbatim>\<open>round(0.125, 2)\<close> is \<^verbatim>\<open>0.12\<close>, an exact tie going to the even digit;
  \<^verbatim>\<open>float(2**53 + 1)\<close> is \<^verbatim>\<open>2.0**53\<close>.
\<close>

lemma float_examples:
  "fadd (round64 (1 / 10)) (round64 (1 / 5)) = Fin (1351079888211149 / 4503599627370496)"
  "round64 (3 / 10) = Fin (5404319552844595 / 18014398509481984)"
  "round2 (round64 (107 / 40)) = round64 (267 / 100)"
  "round2 (Fin (1 / 8)) = round64 (3 / 25)"
  "float_of_int (2 ^ 53 + 1) = Inr (Fin (2 ^ 53))"
  by (simp_all add: float_eval float_of_int_def)

subsection \<open>Invoice totals\<close>

lemma line_amount_stored:
  "is_line l p q \<Longrightarrow> float_range q \<Longrightarrow>
   line_amount env l = Inr (fmul p (round64 (of_int q)))"
  by (auto simp: is_line_def line_amount_def float_of_int_range split: pyval.splits)

lemma sum_lines_stored:
  assumes "list_all2 (\<lambda>l pq. is_line l (fst pq) (snd pq)) ls pqs"
    and "list_all (\<lambda>pq. float_range (snd pq)) pqs"
  shows "sum_lines env ls acc
           = Inr (foldl fadd acc (map (\<lambda>pq. fmul (fst pq) (round64 (of_int (snd pq)))) pqs))"
  using assms
proof (induction ls pqs arbitrary: acc rule: list_all2_induct)
  case Nil
  then show ?case by simp
next
  case (Cons l ls pq pqs)
  then show ?case by (simp add: line_amount_stored)
qed

lemma py_iter_lines [simp]: "py_iter (py_or (VList ls) (VList [])) = Inr ls"
  by (simp add: py_or_def)

lemma after_discount_zero: "after_discount_of (Fin 0) d = Fin 0"
  by (cases d)
     (simp_all add: after_discount_of_def discount_of_def fdiv_const_def fsub_def max0_def)

lemma zero_total: "is_finite t \<Longrightarrow> round2 (total_of (Fin 0) d t) = Fin 0"
  by (cases t) (simp_all add: is_finite_def total_of_def tax_of_def after_discount_zero)

lemma example_totals:
  "round2 (discount_of (Fin 100) (Fin 10)) = Fin 10 \<and>
   after_discount_of (Fin 100) (Fin 10) = Fin 90 \<and>
   round2 (tax_of (Fin 100) (Fin 10) (Fin 8)) = round64 (36 / 5) \<and>
   round2 (total_of (Fin 100) (Fin 10) (Fin 8)) = round64 (486 / 5)"
  by (simp add: total_of_def tax_of_def after_discount_of_def discount_of_def float_eval)

lemma subtotal_examples:
  "subtotal_of [(Fin 25, 4)] = Fin 100" "subtotal_of [(Fin 0, 3)] = Fin 0"
  by (simp_all add: subtotal_of_def float_eval)

text \<open>
  C4, as stated, fails for a tax rate that is not a number: with a subtotal of 0 and the
  tax rate \<^verbatim>\<open>inf\<close> (which \<^verbatim>\<open>create_invoice\<close> stores for the JSON number
  \<^verbatim>\<open>1e999\<close>), \<open>0.0 * inf\<close> is NaN and so is the total.
\<close>

theorem totals_infinite_rate:
  "compute_invoice_totals example_env
     [(''number'', VStr ''INV-1''),
      (''taxRate'', VFloat PInf),
      (''discountRate'', VFloat (Fin 0)),
      (''lines'', VList [VDict [(''price'', VFloat (Fin 0)), (''quantity'', VInt 0)]])]
   = Inr [(''subtotal'', VFloat (Fin 0)),
          (''discountRate'', VFloat (Fin 0)),
          (''discountAmount'', VFloat (Fin 0)),
          (''taxRate'', VFloat PInf),
          (''taxAmount'', VFloat NaN),
          (''total'', VFloat NaN)]"
  by (simp add: compute_invoice_totals_def dict_get_def py_or_def line_amount_def float_eval)

text \<open>
  C4, amended. For a stored invoice (lines with a float price and an int quantity, float
  rates) \<^verbatim>\<open>compute_invoice_totals\<close> returns the subtotal, the discount, the tax and the
  total of the specification's formulas, each rounded to two decimals, and the two rates
  as they are. When the subtotal is 100, the discount rate 10 and the tax rate 8, these
  are 10, 90 after discount, 7.2 and 97.2 (the floats nearest to them). When the subtotal
  is 0 the total is 0 for every discount rate and every finite tax rate.
\<close>

theorem compute_invoice_totals_formula:
  assumes "dict_get inv_doc ''lines'' = VList ls"
    and "list_all2 (\<lambda>l pq. is_line l (fst pq) (snd pq)) ls pqs"
    and "list_all (\<lambda>pq. float_range (snd pq)) pqs"
    and "dict_get inv_doc ''taxRate'' = VFloat t"
    and "dict_get inv_doc ''discountRate'' = VFloat d"
  shows "compute_invoice_totals env inv_doc =
           Inr [(''subtotal'', VFloat (round2 (subtotal_of pqs))),
                (''discountRate'', VFloat d),
                (''discountAmount'', VFloat (round2 (discount_of (subtotal_of pqs) d))),
                (''taxRate'', VFloat t),
                (''taxAmount'', VFloat (round2 (tax_of (subtotal_of pqs) d t))),
                (''total'', VFloat (round2 (total_of (subtotal_of pqs) d t)))] \<and>
         (subtotal_of pqs = Fin 100 \<and> d = Fin 10 \<and> t = Fin 8 \<longrightarrow>
            round2 (discount_of (subtotal_of pqs) d) = Fin 10 \<and>
            after_discount_of (subtotal_of pqs) d = Fin 90 \<and>
            round2 (tax_of (subtotal_of pqs) d t) = round64 (36 / 5) \<and>
            round2 (total_of (subtotal_of pqs) d t) = round64 (486 / 5)) \<and>
         (subtotal_of pqs = Fin 0 \<and> is_finite t \<longrightarrow>
            round2 (total_of (subtotal_of pqs) d t) = Fin 0)"
proof -
  have f: "compute_invoice_totals env inv_doc =
           Inr [(''subtotal'', VFloat (round2 (subtotal_of pqs))),
                (''discountRate'', VFloat d),
                (''discountAmount'', VFloat (round2 (discount_of (subtotal_of pqs) d))),
                (''taxRate'', VFloat t),
                (''taxAmount'', VFloat (round2 (tax_of (subtotal_of pqs) d t))),
                (''total'', VFloat (round2 (total_of (subtotal_of pqs) d t)))]"
    using assms(1,4,5) sum_lines_stored [OF assms(2,3), of env "Fin 0"]
    by (simp add: compute_invoice_totals_def subtotal_of_def Let_def total_of_def tax_of_def
          after_discount_of_def discount_of_def)
  have e: "subtotal_of pqs = Fin 100 \<and> d = Fin 10 \<and> t = Fin 8 \<longrightarrow>
            round2 (discount_of (subtotal_of pqs) d) = Fin 10 \<and>
            after_discount_of (subtotal_of pqs) d = Fin 90 \<and>
            round2 (tax_of (subtotal_of pqs) d t) = round64 (36 / 5) \<and>
            round2 (total_of (subtotal_of pqs) d t) = round64 (486 / 5)"
    using example_totals by metis
  have z: "subtotal_of pqs = Fin 0 \<and> is_finite t \<longrightarrow>
            round2 (total_of (subtotal_of pqs) d t) = Fin 0"
    using zero_total [of t d] by metis
  from f e z show ?thesis by blast
qed

theorem compute_invoice_totals_formula_witness:
  "compute_invoice_totals example_env example_invoice =
     Inr [(''subtotal'', VFloat (Fin 100)),
          (''discountRate'', VFloat (Fin 10)),
          (''discountAmount'', VFloat (Fin 10)),
          (''taxRate'', VFloat (Fin 8)),
          (''taxAmount'', VFloat (round64 (36 / 5))),
          (''total'', VFloat (round64 (486 / 5)))] \<and>
   after_discount_of (Fin 100) (Fin 10) = Fin 90 \<and>
   is_finite (Fin 8) \<and>
   compute_invoice_totals example_env empty_sale =
     Inr [(''subtotal'', VFloat (Fin 0)),
          (''discountRate'', VFloat (Fin 10)),
          (''discountAmount'', VFloat (Fin 0)),
          (''taxRate'', VFloat (Fin 8)),
          (''taxAmount'', VFloat (Fin 0)),
          (''total'', VFloat (Fin 0))]"
proof -
  have a: "compute_invoice_totals example_env example_invoice =
     Inr [(''subtotal'', VFloat (Fin 100)),
          (''discountRate'', VFloat (Fin 10)),
          (''discountAmount'', VFloat (Fin 10)),
          (''taxRate'', VFloat (Fin 8)),
          (''taxAmount'', VFloat (round64 (36 / 5))),
          (''total'', VFloat (round64 (486 / 5)))] \<and>
       after_discount_of (Fin 100) (Fin 10) = Fin 90"
    using compute_invoice_totals_formula [of example_invoice
        "[VDict [(''itemId'', VOid ''64b7f0c2a1d3e4f5a6b7c8d9''),
                 (''name'', VStr ''USB-C Cable''),
                 (''sku'', VStr ''ELEC-CABLE-004''),
                 (''price'', VFloat (Fin 25)),
                 (''quantity'', VInt 4)]]"
        "[(Fin 25, 4)]" "Fin 8" "Fin 10" example_env]
    by (simp add: example_invoice_def dict_get_def is_line_def float_range_small
          subtotal_examples round2_100)
  have b: "compute_invoice_totals example_env empty_sale =
     Inr [(''subtotal'', VFloat (Fin 0)),
          (''discountRate'', VFloat (Fin 10)),
          (''discountAmount'', VFloat (Fin 0)),
          (''taxRate'', VFloat (Fin 8)),
          (''taxAmount'', VFloat (Fin 0)),
          (''total'', VFloat (Fin 0))]"
    using compute_invoice_totals_formula [of empty_sale
        "[VDict [(''itemId'', VNone),
                 (''name'', VStr ''Sample''),
                 (''sku'', VStr []),
                 (''price'', VFloat (Fin 0)),
                 (''quantity'', VInt 3)]]"
        "[(Fin 0, 3)]" "Fin 8" "Fin 10" example_env]
    by (simp add: empty_sale_def dict_get_def is_line_def float_range_small
          subtotal_examples is_finite_def discount_of_def tax_of_def after_discount_zero)
  from a b show ?thesis by (simp add: is_finite_def)
qed

subsection \<open>Dashboard statistics\<close>

lemma stats_step:
  assumes "is_item d v" and "float_range (iv_quantity v)"
  shows "stats_loop env (d # ds) acc =
           stats_loop env ds
             \<lparr>total_quantity = total_quantity acc + iv_quantity v,
              low_stock_items = (if low_stock v then low_stock_items acc @ [VStr (iv_name v)]
                                 else low_stock_items acc),
              total_value = fadd (total_value acc)
                              (fmul (round64 (of_int (iv_quantity v))) (iv_price v)),
              categories = add_cat (categories acc) (iv_category v)\<rparr>"
proof -
  from assms(1) have q: "dict_get d ''quantity'' = VInt (iv_quantity v)"
    and m: "dict_get d ''minStockLevel'' = VInt (iv_min v)"
    and p: "dict_get d ''price'' = VFloat (iv_price v)"
    by (simp_all add: is_item_def)
  from assms(1) have n: "py_or (dict_get d ''name'') (VStr []) = VStr (iv_name v)"
    unfolding is_item_def by (auto simp: py_or_def)
  from assms(1) have c:
    "(if truthy (dict_get d ''category'') then set_add (dict_get d ''category'') cs else Inr cs)
       = Inr (add_cat cs (iv_category v))" for cs
    unfolding is_item_def by (auto simp: add_cat_def set_add_def hash_key_def)
  show ?thesis
    by (simp add: q m p n c float_of_int_range [OF assms(2)] low_stock_def Let_def)
qed

lemma stats_loop_views:
  assumes "list_all2 is_item ds vs" and "list_all (\<lambda>v. float_range (iv_quantity v)) vs"
  shows "stats_loop env ds acc =
           Inr \<lparr>total_quantity = total_quantity acc + sum_list (map iv_quantity vs),
                low_stock_items = low_stock_items acc
                                    @ map (\<lambda>v. VStr (iv_name v)) (filter low_stock vs),
                total_value = foldl fadd (total_value acc)
                                (map (\<lambda>v. fmul (round64 (of_int (iv_quantity v))) (iv_price v)) vs),
                categories = foldl add_cat (categories acc) (map iv_category vs)\<rparr>"
  using assms
proof (induction ds vs arbitrary: acc rule: list_all2_induct)
  case Nil
  then show ?case by simp
next
  case (Cons d ds v vs)
  from Cons.prems have r: "float_range (iv_quantity v)"
    and rs: "list_all (\<lambda>v. float_range (iv_quantity v)) vs" by simp_all
  show ?case
    unfolding stats_step [OF Cons.hyps(1) r] Cons.IH [OF rs]
    by (simp add: add.assoc)
qed

lemma add_cat_fold:
  "distinct cs \<Longrightarrow>
   distinct (foldl add_cat cs xs) \<and>
   set (foldl add_cat cs xs) = set cs \<union> VStr ` {c \<in> set xs. c \<noteq> []}"
proof (induction xs arbitrary: cs)
  case Nil
  then show ?case by simp
next
  case (Cons x xs)
  have "distinct (add_cat cs x)" using Cons.prems by (simp add: add_cat_def)
  from Cons.IH [OF this] show ?case by (auto simp: add_cat_def)
qed

lemma length_categories:
  "length (foldl add_cat [] xs) = card {c \<in> set xs. c \<noteq> []}"
proof -
  have d: "distinct (foldl add_cat [] xs)"
    and s: "set (foldl add_cat [] xs) = VStr ` {c \<in> set xs. c \<noteq> []}"
    using add_cat_fold [of "[]" xs] by simp_all
  have "length (foldl add_cat [] xs) = card (set (foldl add_cat [] xs))"
    using d by (simp add: distinct_card)
  also have "\<dots> = card {c \<in> set xs. c \<noteq> []}"
    unfolding s by (rule card_image) (simp add: inj_on_def)
  finally show ?thesis .
qed

text \<open>
  C9. Over a store of well-formed items, \<^verbatim>\<open>stats\<close> returns the sum of the
  quantities, the number and the names of the items with \<open>0 < minStockLevel\<close> and
  \<open>quantity < minStockLevel\<close>, the float sum of quantity \<open>\<times>\<close> price rounded to two
  decimals, and the number of distinct non-empty categories. The witness is the
  specification's example: 25, 1, the first item's name, 30.0 and 1.
\<close>

theorem stats_formula:
  assumes "list_all2 is_item (items_col s) vs"
    and "list_all (\<lambda>v. float_range (iv_quantity v)) vs"
  shows "stats env s =
           Ok (VDict
                 [(''totalQuantity'', VInt (sum_list (map iv_quantity vs))),
                  (''lowStockCount'', VInt (int (length (filter low_stock vs)))),
                  (''lowStockItems'', VList (map (\<lambda>v. VStr (iv_name v)) (filter low_stock vs))),
                  (''totalInventoryValue'', VFloat (round2 (inventory_value vs))),
                  (''uniqueCategoriesCount'',
                   VInt (int (card {c \<in> iv_category ` set vs. c \<noteq> []})))])"
  using stats_loop_views [OF assms, of env
      "\<lparr>total_quantity = 0, low_stock_items = [], total_value = Fin 0, categories = []\<rparr>"]
  by (simp add: stats_def inventory_value_def length_categories)

lemma card_nonempty_eval:
  "card {c \<in> f ` set vs. c \<noteq> []} = length (remdups (filter (\<lambda>c. c \<noteq> []) (map f vs)))"
proof -
  have "{c \<in> f ` set vs. c \<noteq> []} = set (filter (\<lambda>c. c \<noteq> []) (map f vs))" by auto
  then show ?thesis by (simp only: List.card_set)
qed

lemma stats_example_value: "round2 (inventory_value stats_views) = Fin 30"
  by (simp add: inventory_value_def stats_views_def float_eval)

lemma stats_example_range: "list_all (\<lambda>v. float_range (iv_quantity v)) stats_views"
  by (simp add: stats_views_def float_range_def float_eval)

theorem stats_formula_witness:
  "list_all2 is_item stats_items stats_views \<and>
   stats example_env \<lparr>items_col = stats_items, invoices_col = [], receipts_col = []\<rparr> =
     Ok (VDict [(''totalQuantity'', VInt 25),
                (''lowStockCount'', VInt 1),
                (''lowStockItems'', VList [VStr ''Widget'']),
                (''totalInventoryValue'', VFloat (Fin 30)),
                (''uniqueCategoriesCount'', VInt 1)])"
proof -
  have i: "list_all2 is_item
             (items_col \<lparr>items_col = stats_items, invoices_col = [], receipts_col = []\<rparr>)
             stats_views"
    by (simp add: stats_items_def stats_views_def is_item_def dict_get_def)
  from stats_formula [OF i stats_example_range, of example_env] i
  show ?thesis
    by (simp add: stats_example_value card_nonempty_eval)
       (simp add: stats_views_def low_stock_def)
qed

text \<open>The same two items written as in the specification, without names and with integer
  prices: the low-stock name is then the empty string.\<close>

lemma stats_literal_example:
  "stats example_env
     \<lparr>items_col =
        [[(''quantity'', VInt 5), (''minStockLevel'', VInt 10), (''price'', VInt 2)],
         [(''quantity'', VInt 20), (''minStockLevel'', VInt 5), (''price'', VInt 1),
          (''category'', VStr ''A'')]],
      invoices_col = [], receipts_col = []\<rparr> =
     Ok (VDict [(''totalQuantity'', VInt 25),
                (''lowStockCount'', VInt 1),
                (''lowStockItems'', VList [VStr []]),
                (''totalInventoryValue'', VFloat (Fin 30)),
                (''uniqueCategoriesCount'', VInt 1)])"
  by (simp add: stats_def dict_get_def py_or_def float_of_int_def set_add_def hash_key_def
        float_eval)

subsection \<open>Invoice updates\<close>

lemma keys_dict_set: "fst ` set (dict_set d k v) = insert k (fst ` set d)"
proof (induction d)
  case Nil
  show ?case by simp
next
  case (Cons kv d)
  obtain k' v' where kv: "kv = (k', v')" by (cases kv)
  show ?case using Cons by (cases "k' = k") (simp_all add: kv insert_commute)
qed

lemma update_step_keys:
  assumes "update_step data k conv acc = Inr acc'"
  shows "fst ` set acc' \<subseteq> fst ` set acc \<union> {x. x = k \<and> py_in k data = Inr True}"
proof -
  from assms have "acc' = acc \<or> (py_in k data = Inr True \<and> (\<exists>v. acc' = dict_set acc k v))"
    by (auto simp: update_step_def split: sum.splits bool.splits)
  then show ?thesis
    by (elim disjE conjE exE) (simp_all add: keys_dict_set)
qed

lemma invoice_update_fields_keys:
  assumes "invoice_update_fields env data = Inr fs"
  shows "fst ` set fs \<subseteq> {k \<in> set invoice_fields. py_in k data = Inr True}"
proof -
  let ?G = "{k \<in> set invoice_fields. py_in k data = Inr True}"
  from assms obtain f1 f2 f3 f4 where
    s1: "update_step data ''customerName'' conv_text [] = Inr f1" and
    s2: "update_step data ''customerPhone'' conv_text f1 = Inr f2" and
    s3: "update_step data ''taxRate'' (conv_rate env) f2 = Inr f3" and
    s4: "update_step data ''discountRate'' (conv_rate env) f3 = Inr f4" and
    s5: "update_step data ''lines'' (conv_lines env) f4 = Inr fs"
    by (auto simp: invoice_update_fields_def split: sum.splits)
  have g: "{x. x = k \<and> py_in k data = Inr True} \<subseteq> ?G" if "k \<in> set invoice_fields" for k
    using that by blast
  have k1: "fst ` set f1 \<subseteq> ?G"
    using update_step_keys [OF s1] g [of "''customerName''"]
    unfolding invoice_fields_def by simp
  have k2: "fst ` set f2 \<subseteq> ?G"
    using update_step_keys [OF s2] k1 g [of "''customerPhone''"]
    unfolding invoice_fields_def by (simp add: subset_trans [OF _ Un_least])
  have k3: "fst ` set f3 \<subseteq> ?G"
    using update_step_keys [OF s3] k2 g [of "''taxRate''"]
    unfolding invoice_fields_def by (simp add: subset_trans [OF _ Un_least])
  have k4: "fst ` set f4 \<subseteq> ?G"
    using update_step_keys [OF s4] k3 g [of "''discountRate''"]
    unfolding invoice_fields_def by (simp add: subset_trans [OF _ Un_least])
  show ?thesis
    using update_step_keys [OF s5] k4 g [of "''lines''"]
    unfolding invoice_fields_def by (simp add: subset_trans [OF _ Un_least])
qed

lemma nth_update_one_frame:
  assumes "j < length col" and "k \<notin> fst ` set fs"
  shows "dict_get (snd (update_one col i fs) ! j) k = dict_get (col ! j) k"
  using nth_update_one [OF assms(1), of i fs] dict_get_set_fields_notin [OF assms(2)]
  by auto

text \<open>
  C6. Whatever the invoice id and the request body are, and whether the update succeeds or
  not, \<^verbatim>\<open>update_invoice\<close> leaves the item collection and the receipt collection as
  they were, keeps every invoice in its place, and leaves every field of every invoice
  unchanged except the fields among customerName, customerPhone, taxRate, discountRate and
  lines that occur in the body.
\<close>

theorem update_invoice_frame:
  "items_col (snd (update_invoice env s invoice_id body)) = items_col s \<and>
   receipts_col (snd (update_invoice env s invoice_id body)) = receipts_col s \<and>
   length (invoices_col (snd (update_invoice env s invoice_id body)))
     = length (invoices_col s) \<and>
   (\<forall>j k. j < length (invoices_col s) \<and> \<not> (k \<in> set invoice_fields \<and> present k body) \<longrightarrow>
      dict_get (invoices_col (snd (update_invoice env s invoice_id body)) ! j) k
        = dict_get (invoices_col s ! j) k)"
proof -
  have frame: "dict_get (snd (update_one (invoices_col s) i fs) ! j) k
                 = dict_get (invoices_col s ! j) k"
    if "invoice_update_fields env (py_or body (VDict [])) = Inr fs"
      and "j < length (invoices_col s)"
      and "\<not> (k \<in> set invoice_fields \<and> present k body)"
    for i fs j k
  proof -
    from invoice_update_fields_keys [OF that(1)] that(3) have "k \<notin> fst ` set fs"
      by (auto simp: present_def)
    with that(2) show ?thesis by (rule nth_update_one_frame)
  qed
  show ?thesis
    unfolding update_invoice_def Let_def
    by (auto split: option.splits sum.splits simp: frame)
qed

lemma update_invoice_example:
  "map (\<lambda>d. dict_get d ''lines'')
     (invoices_col (snd (update_invoice example_env invoice_db ''64b7f0c2a1d3e4f5a6b7c8e1''
                           new_lines)))
   = [VList [VDict [(''itemId'', VOid ''64b7f0c2a1d3e4f5a6b7c8d9''),
                    (''name'', VStr []),
                    (''sku'', VStr []),
                    (''price'', VFloat (Fin 25)),
                    (''quantity'', VInt 50)]]]"
  by (simp add: update_invoice_def invoice_update_fields_def update_step_def new_lines_def
        py_or_def has_key_def dict_get_def conv_lines_def norm_line_def invoice_db_def
        stored_invoice_def has_id_def example_env_def find_one_def Let_def)

theorem update_invoice_frame_witness:
  "0 < length (invoices_col invoice_db) \<and>
   \<not> (''number'' \<in> set invoice_fields \<and> present ''number'' new_lines) \<and>
   items_col (snd (update_invoice example_env invoice_db ''64b7f0c2a1d3e4f5a6b7c8e1''
                     new_lines)) = [example_item] \<and>
   dict_get (invoices_col (snd (update_invoice example_env invoice_db
                                  ''64b7f0c2a1d3e4f5a6b7c8e1'' new_lines)) ! 0) ''number''
     = VStr ''INV-1001''"
proof -
  have l: "0 < length (invoices_col invoice_db)"
    by (simp add: invoice_db_def)
  have n: "\<not> (''number'' \<in> set invoice_fields \<and> present ''number'' new_lines)"
    by (simp add: invoice_fields_def)
  have i: "items_col invoice_db = [example_item]"
    and d: "dict_get (invoices_col invoice_db ! 0) ''number'' = VStr ''INV-1001''"
    by (simp_all add: invoice_db_def stored_invoice_def dict_get_def)
  from update_invoice_frame [of example_env invoice_db "''64b7f0c2a1d3e4f5a6b7c8e1''" new_lines]
    l n i d
  show ?thesis by metis
qed

subsection \<open>Invoice creation\<close>

lemma dict_set_twice: "dict_set (dict_set d k v) k w = dict_set d k w"
  by (induction d) auto

lemma has_id_unique: "has_id i d \<Longrightarrow> has_id j d \<Longrightarrow> i = j"
  by (simp add: has_id_def)

lemma find_one_update_other:
  assumes "i \<noteq> j" and "''_id'' \<notin> fst ` set fs"
  shows "find_one (snd (update_one col j fs)) i = find_one col i"
  using assms
  by (induction col) (auto simp: find_one_def has_id_set_fields dest: has_id_unique)

lemma find_one_mem: "find_one col i = Some doc \<Longrightarrow> doc \<in> set col"
  by (auto simp: find_one_def find_Some_iff)

lemma readable_set_quantity: "readable env (set_fields d [(''quantity'', VInt n)])"
  by (simp add: readable_def item_quantity_def dict_get_dict_set py_or_def)

lemma readable_update_one:
  "list_all (readable env) col \<Longrightarrow>
   list_all (readable env) (snd (update_one col j [(''quantity'', VInt n)]))"
  by (induction col) (auto simp: readable_set_quantity simp del: set_fields.simps)

lemma qty_or0_set: "qty_or0 env (dict_set d ''quantity'' (VInt n)) = n"
  by (simp add: qty_or0_def item_quantity_def dict_get_dict_set py_or_def)

lemma after_sale_step:
  "after_sale env (dict_set doc ''quantity'' (VInt (max 0 (qty_or0 env doc - n)))) ns
     = after_sale env doc (n # ns)"
  by (simp add: after_sale_def clamp_all_def qty_or0_set dict_set_twice)

lemma clamp_all_nonneg: "ns \<noteq> [] \<Longrightarrow> 0 \<le> clamp_all q ns"
proof (induction ns arbitrary: q)
  case Nil
  then show ?case by simp
next
  case (Cons n ns)
  show ?case
  proof (cases "ns = []")
    case True
    then show ?thesis by (simp add: clamp_all_def)
  next
    case False
    from Cons.IH [OF False, of "max 0 (q - n)"] show ?thesis by (simp add: clamp_all_def)
  qed
qed

text \<open>
  The stock loop, when it runs to its end: each item that lines refer to ends with its
  quantity lowered line by line with the floor at zero, and every other item is as before.
  With readable quantities and normalised lines only a write of the store can stop the
  loop.
\<close>

lemma apply_stock_change_effect:
  assumes "list_all normal_line nls" and "list_all (readable env) items"
    and "fst (apply_stock_change env items nls) = None"
  shows "length (snd (apply_stock_change env items nls)) = length items \<and>
         (\<forall>i. find_one (snd (apply_stock_change env items nls)) i
                = map_option (\<lambda>doc. after_sale env doc (sold_to i nls)) (find_one items i))"
  using assms
proof (induction nls arbitrary: items)
  case Nil
  show ?case by (simp add: sold_to_def after_sale_def option.map_ident)
next
  case (Cons l ls)
  from Cons.prems(1) have nl: "normal_line l" and nls: "list_all normal_line ls" by simp_all
  from nl obtain lq where lq: "dict_get l ''quantity'' = VInt lq"
    by (auto simp: normal_line_def split: pyval.splits)
  from nl consider (none) "dict_get l ''itemId'' = VNone"
    | (ref) j where "dict_get l ''itemId'' = VOid j"
    by (auto simp: normal_line_def split: pyval.splits)
  then show ?case
  proof cases
    case none
    then have a: "apply_stock_change env items (l # ls) = apply_stock_change env items ls"
      by simp
    have "sold_to i (l # ls) = sold_to i ls" for i
      using none by (simp add: sold_to_def)
    then show ?thesis
      using Cons.IH [OF nls Cons.prems(2)] Cons.prems(3) a by simp
  next
    case (ref j)
    show ?thesis
    proof (cases "find_one items j")
      case None
      then have a: "apply_stock_change env items (l # ls) = apply_stock_change env items ls"
        using ref by simp
      have "map_option (\<lambda>doc. after_sale env doc (sold_to i (l # ls))) (find_one items i)
              = map_option (\<lambda>doc. after_sale env doc (sold_to i ls)) (find_one items i)" for i
        using None ref by (cases "i = j") (simp_all add: sold_to_def)
      then show ?thesis
        using Cons.IH [OF nls Cons.prems(2)] Cons.prems(3) a by simp
    next
      case (Some doc)
      with Cons.prems(2) have "readable env doc"
        by (auto dest: find_one_mem simp: list_all_iff)
      then obtain q where q: "item_quantity env doc = Inr q"
        by (auto simp: readable_def split: sum.splits)
      then have q0: "qty_or0 env doc = q" by (simp add: qty_or0_def)
      let ?fs = "[(''quantity'', VInt (max 0 (q - lq)))]"
      let ?items1 = "snd (update_one items j ?fs)"
      obtain r it where u: "update_one items j ?fs = (r, it)" by (cases "update_one items j ?fs")
      then have it: "it = ?items1" by simp
      have step: "apply_stock_change env items (l # ls)
                    = (case r of Inl e \<Rightarrow> (Some e, it)
                       | Inr matched \<Rightarrow> apply_stock_change env it ls)"
        using ref Some q [unfolded item_quantity_def] lq u by simp
      from Cons.prems(3) step obtain matched where "r = Inr matched"
        by (cases r) simp_all
      with step it have a:
        "apply_stock_change env items (l # ls) = apply_stock_change env ?items1 ls"
        by simp
      with Cons.prems(3) have n1: "fst (apply_stock_change env ?items1 ls) = None" by simp
      have r1: "list_all (readable env) ?items1"
        by (rule readable_update_one [OF Cons.prems(2)])
      have f1: "find_one ?items1 i
                  = (if i = j then Some (dict_set doc ''quantity'' (VInt (max 0 (q - lq))))
                     else find_one items i)" for i
        using update_one_found [OF Some, of ?fs] find_one_update_other [of i j ?fs items]
        by simp
      have s: "sold_to i (l # ls) = (if i = j then lq # sold_to j ls else sold_to i ls)" for i
        using ref lq by (auto simp: sold_to_def line_qty_def)
      have "find_one (snd (apply_stock_change env ?items1 ls)) i
              = map_option (\<lambda>doc. after_sale env doc (sold_to i (l # ls))) (find_one items i)"
        for i
        using Cons.IH [OF nls r1 n1] f1 [of i] s [of i] Some after_sale_step [of env doc lq] q0
        by (cases "i = j") simp_all
      then show ?thesis using Cons.IH [OF nls r1 n1] a by simp
    qed
  qed
qed

lemma norm_line_shape:
  assumes "norm_line env l = Inr n"
  shows "\<exists>ref nm sk p q.
           n = [(''itemId'', ref), (''name'', nm), (''sku'', sk), (''price'', VFloat p),
                (''quantity'', VInt q)] \<and>
           (ref = VNone \<or> (\<exists>i. ref = VOid i))"
proof -
  from assms obtain d where l: "l = VDict d"
    by (cases l) (simp_all add: norm_line_def)
  define ref where "ref =
    (if truthy (dict_get d ''itemId'')
     then (case ObjectId env (dict_get d ''itemId'') of None \<Rightarrow> VNone | Some i \<Rightarrow> VOid i)
     else VNone)"
  have r: "ref = VNone \<or> (\<exists>i. ref = VOid i)"
    by (simp add: ref_def split: option.splits)
  from assms obtain p where
    p: "py_float env (py_or (dict_get d ''price'') (VInt 0)) = Inr p"
    unfolding l norm_line_def Let_def by (simp split: sum.splits)
  from assms p obtain q where
    q: "py_int env (py_or (dict_get d ''quantity'') (VInt 0)) = Inr q"
    unfolding l norm_line_def Let_def by (simp split: sum.splits)
  from assms p q have
    "n = [(''itemId'', ref), (''name'', py_or (dict_get d ''name'') (VStr [])),
          (''sku'', py_or (dict_get d ''sku'') (VStr [])), (''price'', VFloat p),
          (''quantity'', VInt q)]"
    unfolding l norm_line_def Let_def ref_def by simp
  with r show ?thesis by blast
qed

lemma norm_line_normal:
  assumes "norm_line env l = Inr n"
  shows "normal_line n"
proof -
  from norm_line_shape [OF assms] obtain ref nm sk p q where
    n: "n = [(''itemId'', ref), (''name'', nm), (''sku'', sk), (''price'', VFloat p),
             (''quantity'', VInt q)]"
    and r: "ref = VNone \<or> (\<exists>i. ref = VOid i)" by blast
  from r show ?thesis
    by (elim disjE exE) (simp_all add: n normal_line_def dict_get_def)
qed

lemma norm_lines_normal: "norm_lines env ls = Inr nls \<Longrightarrow> list_all normal_line nls"
proof (induction ls arbitrary: nls)
  case Nil
  then show ?case by simp
next
  case (Cons l ls)
  from Cons.prems obtain n ns where n: "norm_line env l = Inr n"
    and ns: "norm_lines env ls = Inr ns" and e: "nls = n # ns"
    by (auto split: sum.splits)
  from norm_line_normal [OF n] Cons.IH [OF ns] e show ?case by simp
qed

lemma py_or_dict [simp]: "py_or (VDict data) (VDict []) = VDict data"
  by (simp add: py_or_def)

lemma truthy_lines [simp]: "truthy (py_or v (VList [])) = truthy v"
  by (simp add: py_or_def)

lemma py_or_lines: "truthy v \<Longrightarrow> py_or v (VList []) = v"
  by (simp add: py_or_def)

text \<open>The precondition of \<^verbatim>\<open>create_invoice\<close>: without a number or without lines the
  answer is 400 and the store is as before.\<close>

lemma create_invoice_rejected:
  assumes "\<not> truthy (dict_get data ''number'') \<or> \<not> truthy (dict_get data ''lines'')"
  shows "create_invoice env s (VDict data) now new_id
           = (InvalidArgument ''number and lines are required'', s)"
  using assms by (auto simp: create_invoice_def Let_def)

text \<open>
  What \<^verbatim>\<open>create_invoice\<close> has done whenever it answers 201, on a store whose
  quantities are readable: the payload had a number and lines that normalise; no receipt
  was written; the invoice was appended under the fresh id with the normalised lines; and
  with \<^verbatim>\<open>applyStockChange\<close> every item that lines refer to has had their quantities
  taken off one after the other with the floor at zero, while lines whose reference is
  absent, malformed or unknown have changed nothing.
\<close>

lemma create_invoice_created:
  assumes c: "fst (create_invoice env s (VDict data) now new_id) = Created b"
    and r: "list_all (readable env) (items_col s)"
  shows "\<exists>ls nls inv.
           truthy (dict_get data ''number'') \<and>
           py_iter (dict_get data ''lines'') = Inr ls \<and> norm_lines env ls = Inr nls \<and>
           receipts_col (snd (create_invoice env s (VDict data) now new_id)) = receipts_col s \<and>
           invoices_col (snd (create_invoice env s (VDict data) now new_id))
             = invoices_col s @ [inv] \<and>
           dict_get inv ''_id'' = VOid new_id \<and>
           dict_get inv ''number'' = dict_get data ''number'' \<and>
           dict_get inv ''lines'' = VList (map VDict nls) \<and>
           (\<forall>i. find_one (items_col (snd (create_invoice env s (VDict data) now new_id))) i
                  = (if truthy (dict_get data ''applyStockChange'')
                     then map_option (\<lambda>doc. after_sale env doc (sold_to i nls))
                            (find_one (items_col s) i)
                     else find_one (items_col s) i))"
proof -
  have "\<not> (\<not> truthy (dict_get data ''number'') \<or> \<not> truthy (dict_get data ''lines''))"
  proof
    assume a: "\<not> truthy (dict_get data ''number'') \<or> \<not> truthy (dict_get data ''lines'')"
    from create_invoice_rejected [OF a, of env s now new_id] c show False by simp
  qed
  then have tn: "truthy (dict_get data ''number'')" and tl: "truthy (dict_get data ''lines'')"
    by simp_all
  note l = py_or_lines [OF tl]
  obtain t where t: "py_float env (py_or (dict_get data ''taxRate'') (VInt 0)) = Inr t"
    using c tn tl
    by (cases "py_float env (py_or (dict_get data ''taxRate'') (VInt 0))")
       (simp_all add: create_invoice_def Let_def l)
  obtain d where d: "py_float env (py_or (dict_get data ''discountRate'') (VInt 0)) = Inr d"
    using c tn tl t
    by (cases "py_float env (py_or (dict_get data ''discountRate'') (VInt 0))")
       (simp_all add: create_invoice_def Let_def l)
  obtain ls where ls: "py_iter (dict_get data ''lines'') = Inr ls"
    using c tn tl t d
    by (cases "py_iter (dict_get data ''lines'')")
       (simp_all add: create_invoice_def Let_def l)
  obtain nls where nls: "norm_lines env ls = Inr nls"
    using c tn tl t d ls
    by (cases "norm_lines env ls") (simp_all add: create_invoice_def Let_def l)
  define invoice where "invoice =
     [(''number'', dict_get data ''number''),
      (''printedAt'', VTime (printed_at_of env (dict_get data ''printedAt'') now)),
      (''customerName'', py_or (dict_get data ''customerName'') (VStr [])),
      (''customerPhone'', py_or (dict_get data ''customerPhone'') (VStr [])),
      (''taxRate'', VFloat t),
      (''discountRate'', VFloat d),
      (''lines'', VList (map VDict nls)),
      (''createdBy'', py_or (dict_get data ''createdBy'') (VStr []))]"
  define applied where "applied =
     (if truthy (dict_get data ''applyStockChange'')
      then apply_stock_change env (items_col s) nls else (None, items_col s))"
  define inv where "inv = dict_set invoice ''_id'' (VOid new_id)"
  have run: "create_invoice env s (VDict data) now new_id =
     (case fst applied of
        Some e \<Rightarrow> (Unhandled e, s\<lparr>items_col := snd applied\<rparr>)
      | None \<Rightarrow>
          (case insert_one (invoices_col s) invoice new_id of
             Inl e \<Rightarrow> (Unhandled e, s\<lparr>items_col := snd applied\<rparr>)
           | Inr ic \<Rightarrow>
               (with_totals env Created inv,
                s\<lparr>items_col := snd applied, invoices_col := ic\<rparr>)))"
    using tn tl t d ls nls
    by (simp add: create_invoice_def Let_def l invoice_def applied_def inv_def
          split: option.splits sum.splits)
  from c run have an: "fst applied = None"
    by (cases "fst applied") simp_all
  from c run an obtain ic where ic: "insert_one (invoices_col s) invoice new_id = Inr ic"
    by (cases "insert_one (invoices_col s) invoice new_id") simp_all
  then have ic': "ic = invoices_col s @ [inv]"
    by (simp add: insert_one_def inv_def split: if_splits)
  from run an ic have st: "snd (create_invoice env s (VDict data) now new_id)
                             = s\<lparr>items_col := snd applied, invoices_col := ic\<rparr>"
    by simp
  have p1: "dict_get inv ''_id'' = VOid new_id"
    and p2: "dict_get inv ''number'' = dict_get data ''number''"
    and p3: "dict_get inv ''lines'' = VList (map VDict nls)"
    unfolding inv_def dict_get_dict_set by (simp_all add: invoice_def dict_get_def)
  have items: "find_one (snd applied) i
                 = (if truthy (dict_get data ''applyStockChange'')
                    then map_option (\<lambda>doc. after_sale env doc (sold_to i nls))
                           (find_one (items_col s) i)
                    else find_one (items_col s) i)" for i
  proof (cases "truthy (dict_get data ''applyStockChange'')")
    case True
    with an have "fst (apply_stock_change env (items_col s) nls) = None"
      by (simp add: applied_def)
    from apply_stock_change_effect [OF norm_lines_normal [OF nls] r this] True
    show ?thesis by (simp add: applied_def)
  next
    case False
    then show ?thesis by (simp add: applied_def)
  qed
  from tn ls nls p1 p2 p3 items show ?thesis
    unfolding st ic' by auto
qed

text \<open>
  A sale of three lines with \<^verbatim>\<open>applyStockChange\<close>: 50 units of the example item
  (which has 5), one unit of an item that is not in the store, and a line whose item id is
  malformed. The item ends with 0 units, no receipt is written and the invoice is stored.
\<close>

lemma create_invoice_sale_example:
  "map (\<lambda>d. dict_get d ''quantity'')
     (items_col (snd (create_invoice example_env example_db sale_body
        ''2025-01-03T09:30:00'' ''64b7f0c2a1d3e4f5a6b7c8e2''))) = [VInt 0] \<and>
   receipts_col (snd (create_invoice example_env example_db sale_body
        ''2025-01-03T09:30:00'' ''64b7f0c2a1d3e4f5a6b7c8e2'')) = [] \<and>
   map (\<lambda>d. dict_get d ''number'')
     (invoices_col (snd (create_invoice example_env example_db sale_body
        ''2025-01-03T09:30:00'' ''64b7f0c2a1d3e4f5a6b7c8e2''))) = [VStr ''INV-2001'']"
  by (simp add: create_invoice_def sale_body_def example_db_def example_item_def
        example_env_def dict_get_def py_or_def norm_line_def find_one_def has_id_def
        insert_one_def doc_ok_def Let_def)

text \<open>
  The same sale with a line quantity of \<open>2\<^sup>6\<^sup>3\<close>: the stock is written, then the store
  refuses the invoice, which holds an int of more than 8 bytes. The caller gets an
  unclassified failure, the item has lost its stock and no invoice exists.
\<close>

lemma create_invoice_store_overflow:
  "create_invoice example_env example_db
     (VDict [(''number'', VStr ''INV-2003''),
             (''lines'',
              VList [VDict [(''itemId'', VStr ''64b7f0c2a1d3e4f5a6b7c8d9''),
                            (''price'', VFloat (Fin 2)),
                            (''quantity'', VInt 9223372036854775808)]]),
             (''applyStockChange'', VBool True)])
     ''2025-01-03T09:30:00'' ''64b7f0c2a1d3e4f5a6b7c8e2''
   = (Unhandled OverflowError,
      example_db\<lparr>items_col := [dict_set example_item ''quantity'' (VInt 0)]\<rparr>)"
  by (simp add: create_invoice_def example_db_def example_item_def
        example_env_def dict_get_def py_or_def norm_line_def find_one_def has_id_def
        insert_one_def doc_ok_def Let_def)

text \<open>
  C5. The claim asks that with \<^verbatim>\<open>applyStockChange\<close> every line whose item exists
  lowers that item's quantity and that the invoice is created. For a line that refers to
  the example item and carries the price \<^verbatim>\<open>"abc"\<close>, \<^verbatim>\<open>float()\<close> raises while the
  lines are normalised, outside any \<^verbatim>\<open>try\<close>: the stock loop is never reached, the item
  keeps its 5 units and no invoice is stored. The same loop guards \<^verbatim>\<open>ObjectId()\<close>
  with a \<^verbatim>\<open>try\<close>, and the specification has a malformed price count as 0.
\<close>

theorem create_invoice_stock_change_blocked:
  "create_invoice example_env example_db
     (VDict [(''number'', VStr ''INV-2002''),
             (''lines'',
              VList [VDict [(''itemId'', VStr ''64b7f0c2a1d3e4f5a6b7c8d9''),
                            (''name'', VStr ''USB-C Cable''),
                            (''price'', VStr ''abc''),
                            (''quantity'', VInt 3)]]),
             (''applyStockChange'', VBool True)])
     ''2025-01-03T09:30:00'' ''64b7f0c2a1d3e4f5a6b7c8e2''
   = (Unhandled ValueError, example_db)"
  by (simp add: create_invoice_def dict_get_def py_or_def norm_line_def example_env_def
        dec_str_def digit_of_def Let_def)

theorem create_invoice_stock_change_blocked_witness:
  "truthy (VStr ''INV-2002'') \<and>
   find_one (items_col example_db) ''64b7f0c2a1d3e4f5a6b7c8d9'' = Some example_item \<and>
   fst (create_invoice example_env example_db
     (VDict [(''number'', VStr ''INV-2002''),
             (''lines'',
              VList [VDict [(''itemId'', VStr ''64b7f0c2a1d3e4f5a6b7c8d9''),
                            (''name'', VStr ''USB-C Cable''),
                            (''price'', VStr ''abc''),
                            (''quantity'', VInt 3)]]),
             (''applyStockChange'', VBool True)])
     ''2025-01-03T09:30:00'' ''64b7f0c2a1d3e4f5a6b7c8e2'') = Unhandled ValueError \<and>
   items_col (snd (create_invoice example_env example_db
     (VDict [(''number'', VStr ''INV-2002''),
             (''lines'',
              VList [VDict [(''itemId'', VStr ''64b7f0c2a1d3e4f5a6b7c8d9''),
                            (''name'', VStr ''USB-C Cable''),
                            (''price'', VStr ''abc''),
                            (''quantity'', VInt 3)]]),
             (''applyStockChange'', VBool True)])
     ''2025-01-03T09:30:00'' ''64b7f0c2a1d3e4f5a6b7c8e2'')) = [example_item] \<and>
   invoices_col (snd (create_invoice example_env example_db
     (VDict [(''number'', VStr ''INV-2002''),
             (''lines'',
              VList [VDict [(''itemId'', VStr ''64b7f0c2a1d3e4f5a6b7c8d9''),
                            (''name'', VStr ''USB-C Cable''),
                            (''price'', VStr ''abc''),
                            (''quantity'', VInt 3)]]),
             (''applyStockChange'', VBool True)])
     ''2025-01-03T09:30:00'' ''64b7f0c2a1d3e4f5a6b7c8e2'')) = []"
  using create_invoice_stock_change_blocked example_find
  by (simp add: example_db_def)

text \<open>
  C8. The claim asks that an invoice with a number and lines is persisted and returned
  with its totals. With a number and one line whose price is \<^verbatim>\<open>"abc"\<close>, the unguarded
  \<^verbatim>\<open>float()\<close> of the line normalisation raises: nothing is persisted and the caller gets
  an unclassified failure, where \<^verbatim>\<open>create_item\<close>, \<^verbatim>\<open>adjust_stock\<close> and
  \<^verbatim>\<open>receipts\<close> catch the same conversion error.
\<close>

theorem create_invoice_unclassified_failure:
  "create_invoice example_env example_db
     (VDict [(''number'', VStr ''INV-1003''),
             (''lines'', VList [VDict [(''name'', VStr ''Cable''),
                                       (''price'', VStr ''abc''),
                                       (''quantity'', VInt 1)]])])
     ''2025-01-03T09:30:00'' ''64b7f0c2a1d3e4f5a6b7c8e2''
   = (Unhandled ValueError, example_db)"
  by (simp add: create_invoice_def dict_get_def py_or_def norm_line_def example_env_def
        dec_str_def digit_of_def Let_def)

theorem create_invoice_unclassified_failure_witness:
  "truthy (VStr ''INV-1003'') \<and>
   truthy (VList [VDict [(''name'', VStr ''Cable''), (''price'', VStr ''abc''),
                         (''quantity'', VInt 1)]]) \<and>
   fst (create_invoice example_env example_db
     (VDict [(''number'', VStr ''INV-1003''),
             (''lines'', VList [VDict [(''name'', VStr ''Cable''),
                                       (''price'', VStr ''abc''),
                                       (''quantity'', VInt 1)]])])
     ''2025-01-03T09:30:00'' ''64b7f0c2a1d3e4f5a6b7c8e2'') = Unhandled ValueError \<and>
   invoices_col (snd (create_invoice example_env example_db
     (VDict [(''number'', VStr ''INV-1003''),
             (''lines'', VList [VDict [(''name'', VStr ''Cable''),
                                       (''price'', VStr ''abc''),
                                       (''quantity'', VInt 1)]])])
     ''2025-01-03T09:30:00'' ''64b7f0c2a1d3e4f5a6b7c8e2'')) = []"
  using create_invoice_unclassified_failure
  by (simp add: example_db_def)

end
